theory Spec2Isabelle
  imports Main "HOL-Library.Word" "HOL-Library.Sublist"
begin

unbundle bit_operations_syntax

section \<open>Data\<close>

text \<open>
  Both programs are a single C function \<^verbatim>\<open>main\<close> that talks to the wolfCrypt library and
  to standard output. A C \<^verbatim>\<open>int\<close> is a 32-bit word read in two's complement
  (\<open>sint\<close>), a wolfCrypt \<^verbatim>\<open>byte\<close> is an 8-bit word.
\<close>

type_synonym byte = "8 word"
type_synonym c_int = "32 word"

text \<open>
  Modelled from the spec: the macro \<^verbatim>\<open>WC_SHA256_DIGEST_SIZE\<close> comes from the header
  \<^verbatim>\<open>wolfssl/wolfcrypt/sha256.h\<close>, which is not part of the repository. The spec fixes the
  digest buffer at 32 bytes, and the initialiser of \<^verbatim>\<open>expected\<close> has 32 entries.
\<close>

definition WC_SHA256_DIGEST_SIZE :: nat where
  "WC_SHA256_DIGEST_SIZE = 32"

text \<open>
  What a run does besides computing its exit status: the calls to \<^verbatim>\<open>printf\<close> (the format
  string and the integer arguments, in order) and the calls into the library (with their
  arguments), in program order.
\<close>

datatype seed_cb = wc_GenerateSeed

datatype event =
    Printf string "c_int list"
  | SetSeed_Cb seed_cb
  | RunAllCast_fips
  | InitSha256
  | Sha256Update "byte list" c_int
  | Sha256Final

text \<open>
  The library as the programs see it. The two preprocessor symbols are fixed when the program
  is built: \<^verbatim>\<open>HAVE_FIPS\<close> is defined or not, \<^verbatim>\<open>HAVE_FIPS_VERSION\<close> is undefined or an
  integer. Each entry point is called at most once in a run, with constant arguments, so its
  behaviour in a run is the status it returns; \<open>Sha256Final_hash\<close> is the content of the
  caller's buffer \<^verbatim>\<open>hash\<close> after \<^verbatim>\<open>wc_Sha256Final\<close> has returned.
\<close>

record provider =
  HAVE_FIPS :: bool
  HAVE_FIPS_VERSION :: "c_int option"
  wc_RunAllCast_fips :: c_int
  wc_InitSha256 :: c_int
  wc_Sha256Update :: c_int
  wc_Sha256Final :: c_int
  Sha256Final_hash :: "byte list"

text \<open>
  The outcome of a run: the events in order, the value returned by \<^verbatim>\<open>main\<close>, and the
  local buffer \<^verbatim>\<open>hash\<close> (\<open>None\<close> as long as nothing has been written to it).
\<close>

record run =
  trace :: "event list"
  exit_code :: c_int
  hash :: "byte list option"

section \<open>Constants of the source\<close>

text \<open>The three non-ASCII marks of the messages, as the UTF-8 bytes of the source file.\<close>

definition check_mark :: string where
  "check_mark = [CHR 0xE2, CHR 0x9C, CHR 0x93]"

definition cross_mark :: string where
  "cross_mark = [CHR 0xE2, CHR 0x9C, CHR 0x97]"

definition warning_sign :: string where
  "warning_sign = [CHR 0xE2, CHR 0x9A, CHR 0xA0]"

text \<open>
  \<^verbatim>\<open>const char* testData = "abc";\<close> (\<^verbatim>\<open>data\<close> in test-fips.c). A C string literal is
  its characters followed by a NUL byte; the pointer is cast to \<^verbatim>\<open>const byte*\<close>.
\<close>

definition c_str :: "string \<Rightarrow> byte list" where
  "c_str s = map of_char s @ [0]"

definition testData :: "byte list" where
  "testData = c_str ''abc''"

text \<open>\<^verbatim>\<open>const byte expected[WC_SHA256_DIGEST_SIZE] = { 0xba, 0x78, ... }\<close>\<close>

definition expected :: "byte list" where
  "expected =
    [0xba, 0x78, 0x16, 0xbf, 0x8f, 0x01, 0xcf, 0xea,
     0x41, 0x41, 0x40, 0xde, 0x5d, 0xae, 0x22, 0x23,
     0xb0, 0x03, 0x61, 0xa3, 0x96, 0x17, 0x7a, 0x9c,
     0xb4, 0x10, 0xff, 0x61, 0xf2, 0x00, 0x15, 0xad]"

section \<open>The loops\<close>

text \<open>
  fips-startup-check.c, lines 93 to 99:
  \<^verbatim>\<open>
  int match = 1;
  for (int i = 0; i < WC_SHA256_DIGEST_SIZE; i++) {
      if (hash[i] != expected[i]) { match = 0; break; }
  }
  \<close>
  The loop state is \<open>(match, i)\<close>; the function returns the state in which the loop is left.
  The counter stays within 0 and 32, so it is a natural number.
\<close>

function match_loop :: "byte list \<Rightarrow> byte list \<Rightarrow> c_int \<Rightarrow> nat \<Rightarrow> c_int \<times> nat" where
  "match_loop hsh ex match i =
     (if i < WC_SHA256_DIGEST_SIZE then
        (if hsh ! i \<noteq> ex ! i then (0, i)
         else match_loop hsh ex match (Suc i))
      else (match, i))"
  by pat_completeness auto
termination
  by (relation "measure (\<lambda>(hsh, ex, match, i). WC_SHA256_DIGEST_SIZE - i)") auto

text \<open>
  test-fips.c, lines 58 to 60:
  \<^verbatim>\<open>
  for (int i = 0; i < WC_SHA256_DIGEST_SIZE; i++) { printf("%02x", hash[i]); }
  \<close>
  A \<^verbatim>\<open>byte\<close> argument of \<^verbatim>\<open>printf\<close> is promoted to \<^verbatim>\<open>int\<close>.
\<close>

function print_loop :: "byte list \<Rightarrow> nat \<Rightarrow> event list \<Rightarrow> event list \<times> nat" where
  "print_loop hsh i out =
     (if i < WC_SHA256_DIGEST_SIZE then
        print_loop hsh (Suc i) (out @ [Printf ''%02x'' [ucast (hsh ! i)]])
      else (out, i))"
  by pat_completeness auto
termination
  by (relation "measure (\<lambda>(hsh, i, out). WC_SHA256_DIGEST_SIZE - i)") auto

declare match_loop.simps [simp del] print_loop.simps [simp del]

section \<open>fips-startup-check.c\<close>

text \<open>
  Lines 35 to 52, check 1. The result is the output so far and the value returned from
  \<^verbatim>\<open>main\<close> there, if the check returns.
\<close>

definition startup_check1 :: "provider \<Rightarrow> event list \<Rightarrow> event list \<times> c_int option" where
  "startup_check1 p out0 =
    (let out = out0 @ [Printf ''[1/3] Checking FIPS compile-time configuration...\<newline>'' []] in
     if HAVE_FIPS p then
       (let out = out @ [Printf (''      '' @ check_mark @ '' FIPS mode: ENABLED\<newline>'') []] in
        case HAVE_FIPS_VERSION p of
          Some v \<Rightarrow>
            (let out = out @ [Printf (''      '' @ check_mark @ '' FIPS version: %d\<newline>'') [v]] in
             if sint v < 5 then
               (out @ [Printf (''      '' @ cross_mark @
                         '' ERROR: FIPS version must be 5 or higher\<newline>'') []],
                Some 1)
             else (out, None))
        | None \<Rightarrow>
            (out @ [Printf (''      '' @ warning_sign @
                      '' FIPS version macro not available\<newline>'') []],
             None))
     else
       (out @ [Printf (''      '' @ cross_mark @ '' ERROR: FIPS mode is DISABLED\<newline>'') [],
               Printf ''      This binary was not compiled with FIPS support\<newline>'' []],
        Some 1))"

text \<open>Lines 65 to 116, check 3 and the final banner, after the output \<open>out0\<close>.\<close>

definition startup_check3 :: "provider \<Rightarrow> event list \<Rightarrow> run" where
  "startup_check3 p out0 =
    (let out = out0 @ [Printf ''\<newline>[3/3] Validating SHA-256 cryptographic operation...\<newline>'' [],
                       InitSha256];
         ret = wc_InitSha256 p in
     if ret \<noteq> 0 then
       \<lparr>trace = out @ [Printf (''      '' @ cross_mark @
                         '' SHA-256 initialization failed (error code: %d)\<newline>'') [ret]],
        exit_code = 1, hash = None\<rparr>
     else
     let out = out @ [Sha256Update testData 3];
         ret = wc_Sha256Update p in
     if ret \<noteq> 0 then
       \<lparr>trace = out @ [Printf (''      '' @ cross_mark @
                         '' SHA-256 update failed (error code: %d)\<newline>'') [ret]],
        exit_code = 1, hash = None\<rparr>
     else
     let out = out @ [Sha256Final];
         ret = wc_Sha256Final p;
         hsh = Sha256Final_hash p in
     if ret \<noteq> 0 then
       \<lparr>trace = out @ [Printf (''      '' @ cross_mark @
                         '' SHA-256 finalization failed (error code: %d)\<newline>'') [ret]],
        exit_code = 1, hash = Some hsh\<rparr>
     else
     let (match, i) = match_loop hsh expected 1 0 in
     if match = 0 then
       \<lparr>trace = out @ [Printf (''      '' @ cross_mark @ '' SHA-256 test vector mismatch\<newline>'') [],
                       Printf ''      Cryptographic operation produced incorrect result\<newline>'' []],
        exit_code = 1, hash = Some hsh\<rparr>
     else
       \<lparr>trace = out @ [Printf (''      '' @ check_mark @ '' SHA-256 test vector: PASSED\<newline>'') [],
                       Printf ''\<newline>========================================\<newline>'' [],
                       Printf (check_mark @ '' FIPS VALIDATION PASSED\<newline>'') [],
                       Printf ''========================================\<newline>'' [],
                       Printf ''FIPS 140-3 compliant cryptography verified\<newline>'' [],
                       Printf ''Container startup authorized\<newline>\<newline>'' []],
        exit_code = 0, hash = Some hsh\<rparr>)"

text \<open>Lines 54 to 63, check 2, followed by check 3.\<close>

definition startup_check2 :: "provider \<Rightarrow> event list \<Rightarrow> run" where
  "startup_check2 p out0 =
    (let out = out0 @ [Printf ''\<newline>[2/3] Running FIPS Known Answer Tests (CAST)...\<newline>'' [],
                       SetSeed_Cb wc_GenerateSeed,
                       RunAllCast_fips];
         ret = wc_RunAllCast_fips p in
     if ret \<noteq> 0 then
       \<lparr>trace = out @ [Printf (''      '' @ cross_mark @
                         '' FIPS CAST FAILED (error code: %d)\<newline>'') [ret],
                       Printf ''      FIPS cryptographic module validation failed\<newline>'' []],
        exit_code = 1, hash = None\<rparr>
     else
       startup_check3 p
         (out @ [Printf (''      '' @ check_mark @ '' FIPS CAST: PASSED\<newline>'') []]))"

text \<open>\<^verbatim>\<open>main\<close> of fips-startup-check.c.\<close>

definition fips_startup_check_main :: "provider \<Rightarrow> run" where
  "fips_startup_check_main p =
    (let out = [Printf ''========================================\<newline>'' [],
                Printf ''FIPS Startup Validation\<newline>'' [],
                Printf ''========================================\<newline>\<newline>'' []] in
     case startup_check1 p out of
       (out, Some r) \<Rightarrow> \<lparr>trace = out, exit_code = r, hash = None\<rparr>
     | (out, None) \<Rightarrow> startup_check2 p out)"

section \<open>test-fips.c\<close>

text \<open>\<^verbatim>\<open>main\<close> of test-fips.c.\<close>

definition test_fips_main :: "provider \<Rightarrow> run" where
  "test_fips_main p =
    (let out = [Printf ''Testing wolfSSL FIPS installation...\<newline>'' []];
         out = out @
           (if HAVE_FIPS p then
              Printf ''FIPS mode: ENABLED\<newline>'' [] #
              (case HAVE_FIPS_VERSION p of
                 Some v \<Rightarrow> [Printf ''FIPS version: %d\<newline>'' [v]]
               | None \<Rightarrow> [Printf ''FIPS version: Enabled (version macro not available)\<newline>'' []])
            else [Printf ''FIPS mode: DISABLED (WARNING!)\<newline>'' []]);
         out = out @ [Printf ''\<newline>Running FIPS CAST (Known Answer Tests)...\<newline>'' [],
                      SetSeed_Cb wc_GenerateSeed,
                      RunAllCast_fips];
         ret = wc_RunAllCast_fips p in
     if ret \<noteq> 0 then
       \<lparr>trace = out @ [Printf ''FIPS CAST failed: %d\<newline>'' [ret]], exit_code = 1, hash = None\<rparr>
     else
     let out = out @ [Printf ''FIPS CAST: PASSED\<newline>'' [],
                      Printf ''\<newline>Running SHA256 test...\<newline>'' [],
                      InitSha256];
         ret = wc_InitSha256 p in
     if ret \<noteq> 0 then
       \<lparr>trace = out @ [Printf ''SHA256 Init failed: %d\<newline>'' [ret]], exit_code = 1, hash = None\<rparr>
     else
     let out = out @ [Sha256Update testData 3];
         ret = wc_Sha256Update p in
     if ret \<noteq> 0 then
       \<lparr>trace = out @ [Printf ''SHA256 Update failed: %d\<newline>'' [ret]], exit_code = 1, hash = None\<rparr>
     else
     let out = out @ [Sha256Final];
         ret = wc_Sha256Final p;
         hsh = Sha256Final_hash p in
     if ret \<noteq> 0 then
       \<lparr>trace = out @ [Printf ''SHA256 Final failed: %d\<newline>'' [ret]],
        exit_code = 1, hash = Some hsh\<rparr>
     else
     let out = out @ [Printf (''SHA256('' @ [CHR 0x27] @ ''abc'' @ [CHR 0x27] @ '') = '') []];
         (out, i) = print_loop hsh 0 out in
       \<lparr>trace = out @
          [Printf ''\<newline>'' [],
           Printf ''Expected:       ba7816bf8f01cfea414140de5dae2223b00361a396177a9cb410ff61f20015ad\<newline>'' [],
           Printf (''\<newline>wolfSSL FIPS test: ALL PASSED '' @ check_mark @ ''\<newline>'') []],
        exit_code = 0, hash = Some hsh\<rparr>)"

section \<open>Observations on runs\<close>

text \<open>The library calls of a run: its events without the output.\<close>

fun is_call :: "event \<Rightarrow> bool" where
  "is_call (Printf fmt args) = False"
| "is_call e = True"

definition calls :: "event list \<Rightarrow> event list" where
  "calls t = filter is_call t"

text \<open>
  What the program reads back from a library call: the status, and for
  \<^verbatim>\<open>wc_Sha256Final\<close> the bytes left in \<^verbatim>\<open>hash\<close>. The results of \<^verbatim>\<open>printf\<close> and
  \<^verbatim>\<open>wc_SetSeed_Cb\<close> are not used.
\<close>

fun answer :: "provider \<Rightarrow> event \<Rightarrow> c_int option \<times> byte list option" where
  "answer p RunAllCast_fips = (Some (wc_RunAllCast_fips p), None)"
| "answer p InitSha256 = (Some (wc_InitSha256 p), None)"
| "answer p (Sha256Update d n) = (Some (wc_Sha256Update p), None)"
| "answer p Sha256Final = (Some (wc_Sha256Final p), Some (Sha256Final_hash p))"
| "answer p (SetSeed_Cb cb) = (None, None)"
| "answer p (Printf fmt args) = (None, None)"

text \<open>
  The order in which the checks 2 and 3 call the library: each call is made when every
  call before it has returned 0.
\<close>

definition library_calls :: "provider \<Rightarrow> event list" where
  "library_calls p =
     SetSeed_Cb wc_GenerateSeed # RunAllCast_fips #
     (if wc_RunAllCast_fips p \<noteq> 0 then []
      else InitSha256 #
        (if wc_InitSha256 p \<noteq> 0 then []
         else Sha256Update testData 3 #
           (if wc_Sha256Update p \<noteq> 0 then [] else [Sha256Final])))"

text \<open>
  The checks in the words of the specification. Check 1 passes when FIPS is enabled and the
  version, if there is one, is not below 5. The digest calls succeed when all three return 0.
\<close>

definition check1_passes :: "provider \<Rightarrow> bool" where
  "check1_passes p =
     (HAVE_FIPS p \<and> (case HAVE_FIPS_VERSION p of None \<Rightarrow> True | Some v \<Rightarrow> 5 \<le> sint v))"

definition digest_calls_succeed :: "provider \<Rightarrow> bool" where
  "digest_calls_succeed p =
     (wc_InitSha256 p = 0 \<and> wc_Sha256Update p = 0 \<and> wc_Sha256Final p = 0)"

text \<open>The first three lines of output of fips-startup-check.c.\<close>

definition banner :: "event list" where
  "banner = [Printf ''========================================\<newline>'' [],
             Printf ''FIPS Startup Validation\<newline>'' [],
             Printf ''========================================\<newline>\<newline>'' []]"

section \<open>Reference definitions: hexadecimal notation and SHA-256\<close>

text \<open>
  The specification writes the expected digest as 64 lower-case hexadecimal digits, two for
  each byte, as \<^verbatim>\<open>printf("%02x", b)\<close> prints a byte.
\<close>

definition hex_digit :: "nat \<Rightarrow> char" where
  "hex_digit n = ''0123456789abcdef'' ! n"

definition hex2 :: "byte \<Rightarrow> string" where
  "hex2 b = [hex_digit (unat b div 16), hex_digit (unat b mod 16)]"

definition hex_of :: "byte list \<Rightarrow> string" where
  "hex_of bs = concat (map hex2 bs)"

text \<open>
  The specification calls the constant the SHA-256 digest of the input "abc". SHA-256 itself
  is computed by the library and is no part of the two programs. The following is the
  function of the standard (FIPS 180-4, sections 4.1.2, 5.1.1, 5.3.3, 6.2), against which the
  constant of the source is compared.
\<close>

type_synonym w32 = "32 word"

definition rotr :: "nat \<Rightarrow> w32 \<Rightarrow> w32" where
  "rotr n x = drop_bit n x OR push_bit (32 - n) x"

definition Ch :: "w32 \<Rightarrow> w32 \<Rightarrow> w32 \<Rightarrow> w32" where
  "Ch x y z = (x AND y) XOR (NOT x AND z)"

definition Maj :: "w32 \<Rightarrow> w32 \<Rightarrow> w32 \<Rightarrow> w32" where
  "Maj x y z = (x AND y) XOR (x AND z) XOR (y AND z)"

definition Sigma0 :: "w32 \<Rightarrow> w32" where
  "Sigma0 x = rotr 2 x XOR rotr 13 x XOR rotr 22 x"

definition Sigma1 :: "w32 \<Rightarrow> w32" where
  "Sigma1 x = rotr 6 x XOR rotr 11 x XOR rotr 25 x"

definition sigma0 :: "w32 \<Rightarrow> w32" where
  "sigma0 x = rotr 7 x XOR rotr 18 x XOR drop_bit 3 x"

definition sigma1 :: "w32 \<Rightarrow> w32" where
  "sigma1 x = rotr 17 x XOR rotr 19 x XOR drop_bit 10 x"

text \<open>
  The constants of the standard are fractional parts of roots of primes: the 64 round
  constants are the first 32 bits of the fractional parts of the cube roots of the first 64
  primes, the initial hash value those of the square roots of the first 8 primes.
  \<open>root_bits k n b r\<close> adds to \<open>r\<close>, from bit \<open>b - 1\<close> down to bit 0, every bit that
  keeps the \<open>k\<close>-th power at most \<open>n\<close>.
\<close>

fun root_bits :: "nat \<Rightarrow> int \<Rightarrow> nat \<Rightarrow> int \<Rightarrow> int" where
  "root_bits k n 0 r = r"
| "root_bits k n (Suc b) r =
     (if (r + 2 ^ b) ^ k \<le> n then root_bits k n b (r + 2 ^ b) else root_bits k n b r)"

definition frac_root32 :: "nat \<Rightarrow> int \<Rightarrow> w32" where
  "frac_root32 k p = word_of_int (root_bits k (p * 2 ^ (32 * k)) 36 0)"

definition primes64 :: "int list" where
  "primes64 =
    [2, 3, 5, 7, 11, 13, 17, 19, 23, 29, 31, 37, 41, 43, 47, 53, 59, 61, 67, 71, 73, 79, 83, 89,
     97, 101, 103, 107, 109, 113, 127, 131, 137, 139, 149, 151, 157, 163, 167, 173, 179, 181,
     191, 193, 197, 199, 211, 223, 227, 229, 233, 239, 241, 251, 257, 263, 269, 271, 277, 281,
     283, 293, 307, 311]"

definition K256 :: "w32 list" where
  "K256 = map (frac_root32 3) primes64"

definition H256_init :: "w32 list" where
  "H256_init = map (frac_root32 2) (take 8 primes64)"

text \<open>Words and the bit length of the message are stored with the most significant byte first.\<close>

definition be32 :: "byte list \<Rightarrow> w32" where
  "be32 bs = foldl (\<lambda>acc b. push_bit 8 acc OR ucast b) 0 bs"

definition bytes_of_w32 :: "w32 \<Rightarrow> byte list" where
  "bytes_of_w32 w = [ucast (drop_bit 24 w), ucast (drop_bit 16 w), ucast (drop_bit 8 w), ucast w]"

definition bytes_of_w64 :: "64 word \<Rightarrow> byte list" where
  "bytes_of_w64 w = map (\<lambda>i. ucast (drop_bit (8 * (7 - i)) w)) [0..<8]"

text \<open>
  Padding: the byte 0x80, then zero bytes up to 56 modulo 64, then the length of the message
  in bits as 64 bits.
\<close>

definition pad :: "byte list \<Rightarrow> byte list" where
  "pad m = m @ [0x80] @ replicate ((119 - length m mod 64) mod 64) 0 @
           bytes_of_w64 (of_nat (8 * length m))"

fun chunks :: "nat \<Rightarrow> nat \<Rightarrow> 'a list \<Rightarrow> 'a list list" where
  "chunks 0 n xs = []"
| "chunks (Suc k) n xs = take n xs # chunks k n (drop n xs)"

text \<open>The message schedule: 48 more words after the 16 words of the block.\<close>

fun schedule :: "nat \<Rightarrow> w32 list \<Rightarrow> w32 list" where
  "schedule 0 w = w"
| "schedule (Suc k) w =
     schedule k (w @ [sigma1 (w ! (length w - 2)) + w ! (length w - 7) +
                      sigma0 (w ! (length w - 15)) + w ! (length w - 16)])"

fun round256 :: "w32 list \<Rightarrow> w32 \<times> w32 \<Rightarrow> w32 list" where
  "round256 [a, b, c, d, e, f, g, h] (k, w) =
     (let t1 = h + Sigma1 e + Ch e f g + k + w;
          t2 = Sigma0 a + Maj a b c
      in [t1 + t2, a, b, c, d + t1, e, f, g])"
| "round256 s kw = s"

definition compress :: "w32 list \<Rightarrow> byte list \<Rightarrow> w32 list" where
  "compress hs block =
     (let w = schedule 48 (map be32 (chunks 16 4 block))
      in map2 (+) hs (foldl round256 hs (zip K256 w)))"

definition sha256 :: "byte list \<Rightarrow> byte list" where
  "sha256 m =
     (let p = pad m
      in concat (map bytes_of_w32 (foldl compress H256_init (chunks (length p div 64) 64 p))))"

section \<open>Providers used as examples\<close>

text \<open>
  A FIPS build of version 5 whose calls all succeed and whose digest is the expected one, and
  variations of it.
\<close>

definition nominal :: provider where
  "nominal = \<lparr>HAVE_FIPS = True, HAVE_FIPS_VERSION = Some 5, wc_RunAllCast_fips = 0,
     wc_InitSha256 = 0, wc_Sha256Update = 0, wc_Sha256Final = 0, Sha256Final_hash = expected\<rparr>"

text \<open>The same with a digest whose last byte is wrong.\<close>

definition wrong_digest :: provider where
  "wrong_digest = nominal\<lparr>Sha256Final_hash := expected[31 := 0xae]\<rparr>"

section \<open>Lemmas\<close>

subsection \<open>The loops\<close>

lemma match_loop_fst:
  "fst (match_loop hsh ex m i) =
     (if \<forall>j. i \<le> j \<and> j < WC_SHA256_DIGEST_SIZE \<longrightarrow> hsh ! j = ex ! j then m else 0)"
proof (induction hsh ex m i rule: match_loop.induct)
  case (1 hsh ex match i)
  show ?case
  proof (cases "i < WC_SHA256_DIGEST_SIZE")
    case False
    then have "\<forall>j. i \<le> j \<and> j < WC_SHA256_DIGEST_SIZE \<longrightarrow> hsh ! j = ex ! j" by auto
    with False show ?thesis by (subst match_loop.simps) simp
  next
    case True
    show ?thesis
    proof (cases "hsh ! i = ex ! i")
      case False
      with True show ?thesis by (subst match_loop.simps) auto
    next
      case eq: True
      have "(\<forall>j. i \<le> j \<and> j < WC_SHA256_DIGEST_SIZE \<longrightarrow> hsh ! j = ex ! j) =
            (\<forall>j. Suc i \<le> j \<and> j < WC_SHA256_DIGEST_SIZE \<longrightarrow> hsh ! j = ex ! j)"
        using eq by (metis Suc_leI le_neq_implies_less Suc_leD)
      with True eq "1.IH" show ?thesis by (subst match_loop.simps) simp
    qed
  qed
qed

lemma match_loop_snd: "snd (match_loop hsh ex m i) \<le> max i WC_SHA256_DIGEST_SIZE"
proof (induction hsh ex m i rule: match_loop.induct)
  case (1 hsh ex match i)
  then show ?case by (subst match_loop.simps) (auto simp: max_def split: if_splits)
qed

lemma match_loop_break:
  "fst (match_loop hsh ex m i) = 0 \<Longrightarrow> m \<noteq> 0 \<Longrightarrow> snd (match_loop hsh ex m i) < WC_SHA256_DIGEST_SIZE"
proof (induction hsh ex m i rule: match_loop.induct)
  case (1 hsh ex match i)
  show ?case
  proof (cases "i < WC_SHA256_DIGEST_SIZE \<and> hsh ! i = ex ! i")
    case True
    with "1.prems" have "fst (match_loop hsh ex match (Suc i)) = 0"
      by (subst (asm) match_loop.simps) simp
    with True "1.IH" "1.prems" have "snd (match_loop hsh ex match (Suc i)) < WC_SHA256_DIGEST_SIZE"
      by simp
    with True show ?thesis by (subst match_loop.simps) simp
  next
    case False
    with "1.prems" show ?thesis
      by (subst match_loop.simps, subst (asm) match_loop.simps) (auto split: if_splits)
  qed
qed

lemma length_expected: "length expected = WC_SHA256_DIGEST_SIZE"
  by (simp add: expected_def WC_SHA256_DIGEST_SIZE_def)

lemma match_loop_expected:
  assumes "length hsh = WC_SHA256_DIGEST_SIZE"
  shows "fst (match_loop hsh expected 1 0) = (if hsh = expected then 1 else 0)"
proof -
  have "(\<forall>j. 0 \<le> j \<and> j < WC_SHA256_DIGEST_SIZE \<longrightarrow> hsh ! j = expected ! j) = (hsh = expected)"
    using assms length_expected by (auto intro: nth_equalityI)
  then show ?thesis by (simp add: match_loop_fst)
qed

lemma print_loop_eq:
  "print_loop hsh i out =
     (out @ map (\<lambda>j. Printf ''%02x'' [ucast (hsh ! j)]) [i..<WC_SHA256_DIGEST_SIZE],
      max i WC_SHA256_DIGEST_SIZE)"
proof (induction hsh i out rule: print_loop.induct)
  case (1 hsh i out)
  show ?case
  proof (cases "i < WC_SHA256_DIGEST_SIZE")
    case True
    with "1.IH" show ?thesis by (subst print_loop.simps) (simp add: upt_conv_Cons max_def)
  next
    case False
    then show ?thesis by (subst print_loop.simps) (simp add: max_def)
  qed
qed

subsection \<open>Library calls of a trace\<close>

lemma calls_append [simp]: "calls (xs @ ys) = calls xs @ calls ys"
  by (simp add: calls_def)

lemma calls_Cons_Printf [simp]: "calls (Printf f a # xs) = calls xs"
  by (simp add: calls_def)

lemma calls_Cons_call [simp]: "is_call e \<Longrightarrow> calls (e # xs) = e # calls xs"
  by (simp add: calls_def)

lemma calls_Nil [simp]: "calls [] = []"
  by (simp add: calls_def)

lemma calls_print_loop [simp]: "calls (fst (print_loop hsh i out)) = calls out"
  by (simp add: print_loop_eq calls_def filter_empty_conv)

lemma in_calls: "e \<in> set t \<Longrightarrow> is_call e \<Longrightarrow> e \<in> set (calls t)"
  by (simp add: calls_def)

lemma calls_subset: "e \<in> set (calls t) \<Longrightarrow> e \<in> set t"
  by (simp add: calls_def)

subsection \<open>fips-startup-check.c, stage by stage\<close>

lemma startup_check1_snd:
  "snd (startup_check1 p out) = (if check1_passes p then None else Some 1)"
  by (simp add: startup_check1_def check1_passes_def Let_def split: option.split)

lemma startup_check1_calls: "calls (fst (startup_check1 p out)) = calls out"
  by (simp add: startup_check1_def Let_def split: option.split)

lemma startup_check1_cong:
  "HAVE_FIPS q = HAVE_FIPS p \<Longrightarrow> HAVE_FIPS_VERSION q = HAVE_FIPS_VERSION p \<Longrightarrow>
   startup_check1 q out = startup_check1 p out"
  by (auto simp: startup_check1_def Let_def)

lemma startup_check3_exit_code:
  "exit_code (startup_check3 p out) =
     (if digest_calls_succeed p \<and> fst (match_loop (Sha256Final_hash p) expected 1 0) \<noteq> 0
      then 0 else 1)"
  by (simp add: startup_check3_def digest_calls_succeed_def Let_def case_prod_beta)

lemma startup_check3_calls:
  "calls (trace (startup_check3 p out)) =
     calls out @ drop 2 (library_calls (p\<lparr>wc_RunAllCast_fips := 0\<rparr>))"
  by (simp add: startup_check3_def library_calls_def Let_def case_prod_beta)

lemma startup_check3_hash:
  "hash (startup_check3 p out) =
     (if wc_InitSha256 p = 0 \<and> wc_Sha256Update p = 0 then Some (Sha256Final_hash p) else None)"
  by (simp add: startup_check3_def Let_def case_prod_beta)

lemma startup_check3_cong:
  assumes "wc_InitSha256 q = wc_InitSha256 p"
    and "wc_InitSha256 p = 0 \<Longrightarrow> wc_Sha256Update q = wc_Sha256Update p"
    and "wc_InitSha256 p = 0 \<Longrightarrow> wc_Sha256Update p = 0 \<Longrightarrow>
           wc_Sha256Final q = wc_Sha256Final p \<and> Sha256Final_hash q = Sha256Final_hash p"
  shows "startup_check3 q out = startup_check3 p out"
  using assms by (auto simp: startup_check3_def Let_def)

lemma startup_check2_exit_code:
  "exit_code (startup_check2 p out) =
     (if wc_RunAllCast_fips p = 0 then exit_code (startup_check3 p []) else 1)"
  by (simp add: startup_check2_def Let_def startup_check3_exit_code)

lemma startup_check2_calls:
  "calls (trace (startup_check2 p out)) = calls out @ library_calls p"
  by (simp add: startup_check2_def Let_def startup_check3_calls)
     (simp add: library_calls_def)

lemma startup_check2_hash:
  "hash (startup_check2 p out) =
     (if wc_RunAllCast_fips p = 0 then hash (startup_check3 p []) else None)"
  by (simp add: startup_check2_def Let_def startup_check3_hash)

lemma startup_check2_cong:
  assumes "wc_RunAllCast_fips q = wc_RunAllCast_fips p"
    and "wc_RunAllCast_fips p = 0 \<Longrightarrow> startup_check3 q out' = startup_check3 p out'"
    and "out' = out @ [Printf ''\<newline>[2/3] Running FIPS Known Answer Tests (CAST)...\<newline>'' [],
                       SetSeed_Cb wc_GenerateSeed, RunAllCast_fips,
                       Printf (''      '' @ check_mark @ '' FIPS CAST: PASSED\<newline>'') []]"
  shows "startup_check2 q out = startup_check2 p out"
  using assms by (simp add: startup_check2_def Let_def)

lemma startup_main_pass:
  assumes "check1_passes p"
  shows "fips_startup_check_main p = startup_check2 p (fst (startup_check1 p banner))"
proof -
  obtain out r where c: "startup_check1 p banner = (out, r)" by (cases "startup_check1 p banner")
  with assms startup_check1_snd [of p banner] have "r = None" by simp
  with c show ?thesis by (simp add: fips_startup_check_main_def banner_def)
qed

lemma startup_main_fail:
  assumes "\<not> check1_passes p"
  shows "fips_startup_check_main p =
           \<lparr>trace = fst (startup_check1 p banner), exit_code = 1, hash = None\<rparr>"
proof -
  obtain out r where c: "startup_check1 p banner = (out, r)" by (cases "startup_check1 p banner")
  with assms startup_check1_snd [of p banner] have "r = Some 1" by simp
  with c show ?thesis by (simp add: fips_startup_check_main_def banner_def)
qed

lemma startup_calls:
  "calls (trace (fips_startup_check_main p)) = (if check1_passes p then library_calls p else [])"
proof (cases "check1_passes p")
  case False
  then show ?thesis by (simp add: startup_main_fail startup_check1_calls banner_def)
next
  case True
  then show ?thesis
    by (simp add: startup_main_pass startup_check2_calls startup_check1_calls banner_def)
qed

lemma startup_exit_code_gen:
  "exit_code (fips_startup_check_main p) =
     (if check1_passes p \<and> wc_RunAllCast_fips p = 0 \<and> digest_calls_succeed p \<and>
         fst (match_loop (Sha256Final_hash p) expected 1 0) \<noteq> 0 then 0 else 1)"
proof (cases "check1_passes p")
  case False
  then show ?thesis by (simp add: startup_main_fail)
next
  case True
  then show ?thesis
    by (simp add: startup_main_pass startup_check2_exit_code startup_check3_exit_code)
qed

lemma startup_exit_code:
  assumes len: "length (Sha256Final_hash p) = WC_SHA256_DIGEST_SIZE"
  shows "exit_code (fips_startup_check_main p) =
     (if check1_passes p \<and> wc_RunAllCast_fips p = 0 \<and> digest_calls_succeed p \<and>
         Sha256Final_hash p = expected then 0 else 1)"
proof -
  have m: "(fst (match_loop (Sha256Final_hash p) expected 1 0) \<noteq> 0) =
             (Sha256Final_hash p = expected)"
    by (simp add: match_loop_expected [OF len])
  show ?thesis unfolding startup_exit_code_gen m by simp
qed

lemma startup_hash:
  "hash (fips_startup_check_main p) =
     (if check1_passes p \<and> wc_RunAllCast_fips p = 0 \<and> wc_InitSha256 p = 0 \<and>
         wc_Sha256Update p = 0
      then Some (Sha256Final_hash p) else None)"
proof (cases "check1_passes p")
  case False
  then show ?thesis by (simp add: startup_main_fail)
next
  case True
  then show ?thesis by (simp add: startup_main_pass startup_check2_hash startup_check3_hash)
qed

subsection \<open>test-fips.c, as a whole\<close>

lemma test_fips_exit_code:
  "exit_code (test_fips_main p) =
     (if wc_RunAllCast_fips p = 0 \<and> digest_calls_succeed p then 0 else 1)"
  by (simp add: test_fips_main_def digest_calls_succeed_def Let_def case_prod_beta)

lemma test_fips_calls: "calls (trace (test_fips_main p)) = library_calls p"
  by (simp add: test_fips_main_def library_calls_def Let_def case_prod_beta split: option.split)

lemma test_fips_hash:
  "hash (test_fips_main p) =
     (if wc_RunAllCast_fips p = 0 \<and> wc_InitSha256 p = 0 \<and> wc_Sha256Update p = 0
      then Some (Sha256Final_hash p) else None)"
  by (simp add: test_fips_main_def Let_def case_prod_beta)

lemma test_fips_cong:
  assumes "HAVE_FIPS q = HAVE_FIPS p" and "HAVE_FIPS_VERSION q = HAVE_FIPS_VERSION p"
    and "wc_RunAllCast_fips q = wc_RunAllCast_fips p"
    and "wc_RunAllCast_fips p = 0 \<Longrightarrow> wc_InitSha256 q = wc_InitSha256 p"
    and "wc_RunAllCast_fips p = 0 \<Longrightarrow> wc_InitSha256 p = 0 \<Longrightarrow>
           wc_Sha256Update q = wc_Sha256Update p"
    and "wc_RunAllCast_fips p = 0 \<Longrightarrow> wc_InitSha256 p = 0 \<Longrightarrow> wc_Sha256Update p = 0 \<Longrightarrow>
           wc_Sha256Final q = wc_Sha256Final p \<and> Sha256Final_hash q = Sha256Final_hash p"
  shows "test_fips_main q = test_fips_main p"
  using assms by (auto simp: test_fips_main_def Let_def)

subsection \<open>Which library calls a run reaches\<close>

lemma in_set_calls: "is_call e \<Longrightarrow> (e \<in> set t) = (e \<in> set (calls t))"
  by (auto simp: calls_def)

lemma startup_reaches:
  "(RunAllCast_fips \<in> set (trace (fips_startup_check_main p))) = check1_passes p"
  "(InitSha256 \<in> set (trace (fips_startup_check_main p))) =
     (check1_passes p \<and> wc_RunAllCast_fips p = 0)"
  "(Sha256Update d n \<in> set (trace (fips_startup_check_main p))) =
     (check1_passes p \<and> wc_RunAllCast_fips p = 0 \<and> wc_InitSha256 p = 0 \<and> d = testData \<and> n = 3)"
  "(Sha256Final \<in> set (trace (fips_startup_check_main p))) =
     (check1_passes p \<and> wc_RunAllCast_fips p = 0 \<and> wc_InitSha256 p = 0 \<and>
      wc_Sha256Update p = 0)"
  by (auto simp: in_set_calls [of _ "trace (fips_startup_check_main p)"] startup_calls
        library_calls_def)

lemma test_fips_reaches:
  "RunAllCast_fips \<in> set (trace (test_fips_main p))"
  "(InitSha256 \<in> set (trace (test_fips_main p))) = (wc_RunAllCast_fips p = 0)"
  "(Sha256Update d n \<in> set (trace (test_fips_main p))) =
     (wc_RunAllCast_fips p = 0 \<and> wc_InitSha256 p = 0 \<and> d = testData \<and> n = 3)"
  "(Sha256Final \<in> set (trace (test_fips_main p))) =
     (wc_RunAllCast_fips p = 0 \<and> wc_InitSha256 p = 0 \<and> wc_Sha256Update p = 0)"
  by (auto simp: in_set_calls [of _ "trace (test_fips_main p)"] test_fips_calls
        library_calls_def)

subsection \<open>The outcomes of checks 2 and 3\<close>

text \<open>The run of check 2 and of check 3 in each of their outcomes.\<close>

lemma startup_check2_fail:
  "wc_RunAllCast_fips p \<noteq> 0 \<Longrightarrow>
   startup_check2 p out =
     \<lparr>trace = out @
        [Printf ''\<newline>[2/3] Running FIPS Known Answer Tests (CAST)...\<newline>'' [],
         SetSeed_Cb wc_GenerateSeed, RunAllCast_fips,
         Printf (''      '' @ cross_mark @ '' FIPS CAST FAILED (error code: %d)\<newline>'')
           [wc_RunAllCast_fips p],
         Printf ''      FIPS cryptographic module validation failed\<newline>'' []],
      exit_code = 1, hash = None\<rparr>"
  by (simp add: startup_check2_def Let_def)

lemma startup_check2_pass:
  "wc_RunAllCast_fips p = 0 \<Longrightarrow>
   startup_check2 p out =
     startup_check3 p (out @
        [Printf ''\<newline>[2/3] Running FIPS Known Answer Tests (CAST)...\<newline>'' [],
         SetSeed_Cb wc_GenerateSeed, RunAllCast_fips,
         Printf (''      '' @ check_mark @ '' FIPS CAST: PASSED\<newline>'') []])"
  by (simp add: startup_check2_def Let_def)

lemma startup_check3_init_fail:
  "wc_InitSha256 p \<noteq> 0 \<Longrightarrow>
   startup_check3 p out =
     \<lparr>trace = out @
        [Printf ''\<newline>[3/3] Validating SHA-256 cryptographic operation...\<newline>'' [],
         InitSha256,
         Printf (''      '' @ cross_mark @ '' SHA-256 initialization failed (error code: %d)\<newline>'')
           [wc_InitSha256 p]],
      exit_code = 1, hash = None\<rparr>"
  by (simp add: startup_check3_def Let_def)

lemma startup_check3_update_fail:
  "wc_InitSha256 p = 0 \<Longrightarrow> wc_Sha256Update p \<noteq> 0 \<Longrightarrow>
   startup_check3 p out =
     \<lparr>trace = out @
        [Printf ''\<newline>[3/3] Validating SHA-256 cryptographic operation...\<newline>'' [],
         InitSha256, Sha256Update testData 3,
         Printf (''      '' @ cross_mark @ '' SHA-256 update failed (error code: %d)\<newline>'')
           [wc_Sha256Update p]],
      exit_code = 1, hash = None\<rparr>"
  by (simp add: startup_check3_def Let_def)

lemma startup_check3_final_fail:
  "wc_InitSha256 p = 0 \<Longrightarrow> wc_Sha256Update p = 0 \<Longrightarrow> wc_Sha256Final p \<noteq> 0 \<Longrightarrow>
   startup_check3 p out =
     \<lparr>trace = out @
        [Printf ''\<newline>[3/3] Validating SHA-256 cryptographic operation...\<newline>'' [],
         InitSha256, Sha256Update testData 3, Sha256Final,
         Printf (''      '' @ cross_mark @ '' SHA-256 finalization failed (error code: %d)\<newline>'')
           [wc_Sha256Final p]],
      exit_code = 1, hash = Some (Sha256Final_hash p)\<rparr>"
  by (simp add: startup_check3_def Let_def)

lemma startup_check3_mismatch:
  "digest_calls_succeed p \<Longrightarrow> fst (match_loop (Sha256Final_hash p) expected 1 0) = 0 \<Longrightarrow>
   startup_check3 p out =
     \<lparr>trace = out @
        [Printf ''\<newline>[3/3] Validating SHA-256 cryptographic operation...\<newline>'' [],
         InitSha256, Sha256Update testData 3, Sha256Final,
         Printf (''      '' @ cross_mark @ '' SHA-256 test vector mismatch\<newline>'') [],
         Printf ''      Cryptographic operation produced incorrect result\<newline>'' []],
      exit_code = 1, hash = Some (Sha256Final_hash p)\<rparr>"
  by (simp add: startup_check3_def digest_calls_succeed_def Let_def case_prod_beta)

lemma startup_main_digest:
  assumes "check1_passes p" and "wc_RunAllCast_fips p = 0"
  shows "fips_startup_check_main p =
           startup_check3 p (fst (startup_check1 p banner) @
             [Printf ''\<newline>[2/3] Running FIPS Known Answer Tests (CAST)...\<newline>'' [],
              SetSeed_Cb wc_GenerateSeed, RunAllCast_fips,
              Printf (''      '' @ check_mark @ '' FIPS CAST: PASSED\<newline>'') []])"
  using assms by (simp add: startup_main_pass startup_check2_pass)

subsection \<open>Runs under two providers\<close>

lemma check1_passes_cong:
  "HAVE_FIPS q = HAVE_FIPS p \<Longrightarrow> HAVE_FIPS_VERSION q = HAVE_FIPS_VERSION p \<Longrightarrow>
   check1_passes q = check1_passes p"
  by (simp add: check1_passes_def)

text \<open>What agreement on the calls of a run says about the statuses.\<close>

lemma agree_on_calls:
  assumes "\<forall>e \<in> set (library_calls p). answer q e = answer p e"
  shows "wc_RunAllCast_fips q = wc_RunAllCast_fips p"
    and "wc_RunAllCast_fips p = 0 \<Longrightarrow> wc_InitSha256 q = wc_InitSha256 p"
    and "wc_RunAllCast_fips p = 0 \<Longrightarrow> wc_InitSha256 p = 0 \<Longrightarrow>
           wc_Sha256Update q = wc_Sha256Update p"
    and "wc_RunAllCast_fips p = 0 \<Longrightarrow> wc_InitSha256 p = 0 \<Longrightarrow> wc_Sha256Update p = 0 \<Longrightarrow>
           wc_Sha256Final q = wc_Sha256Final p \<and> Sha256Final_hash q = Sha256Final_hash p"
  using assms by (simp_all add: library_calls_def)

lemma startup_check2_agree:
  assumes "\<forall>e \<in> set (library_calls p). answer q e = answer p e"
  shows "startup_check2 q out = startup_check2 p out"
proof (rule startup_check2_cong [OF agree_on_calls(1) [OF assms] _ refl])
  assume c: "wc_RunAllCast_fips p = 0"
  show "startup_check3 q
          (out @ [Printf ''\<newline>[2/3] Running FIPS Known Answer Tests (CAST)...\<newline>'' [],
                  SetSeed_Cb wc_GenerateSeed, RunAllCast_fips,
                  Printf (''      '' @ check_mark @ '' FIPS CAST: PASSED\<newline>'') []]) =
        startup_check3 p
          (out @ [Printf ''\<newline>[2/3] Running FIPS Known Answer Tests (CAST)...\<newline>'' [],
                  SetSeed_Cb wc_GenerateSeed, RunAllCast_fips,
                  Printf (''      '' @ check_mark @ '' FIPS CAST: PASSED\<newline>'') []])"
    using agree_on_calls(2-4) [OF assms c] by (intro startup_check3_cong) simp_all
qed

lemma startup_agree:
  assumes flags: "HAVE_FIPS q = HAVE_FIPS p" "HAVE_FIPS_VERSION q = HAVE_FIPS_VERSION p"
    and ans: "\<forall>e \<in> set (trace (fips_startup_check_main p)). answer q e = answer p e"
  shows "fips_startup_check_main q = fips_startup_check_main p"
proof (cases "check1_passes p")
  case False
  moreover from False have "\<not> check1_passes q" by (simp add: check1_passes_cong [OF flags])
  ultimately show ?thesis by (simp add: startup_main_fail startup_check1_cong [OF flags])
next
  case True
  then have q: "check1_passes q" by (simp add: check1_passes_cong [OF flags])
  have "calls (trace (fips_startup_check_main p)) = library_calls p"
    using True by (simp add: startup_calls)
  then have "set (library_calls p) \<subseteq> set (trace (fips_startup_check_main p))"
    by (metis calls_subset subsetI)
  with ans have "\<forall>e \<in> set (library_calls p). answer q e = answer p e" by blast
  then have "startup_check2 q out = startup_check2 p out" for out
    by (rule startup_check2_agree)
  with True q show ?thesis by (simp add: startup_main_pass startup_check1_cong [OF flags])
qed

lemma test_fips_agree:
  assumes flags: "HAVE_FIPS q = HAVE_FIPS p" "HAVE_FIPS_VERSION q = HAVE_FIPS_VERSION p"
    and ans: "\<forall>e \<in> set (trace (test_fips_main p)). answer q e = answer p e"
  shows "test_fips_main q = test_fips_main p"
proof -
  have "set (library_calls p) \<subseteq> set (trace (test_fips_main p))"
    by (metis test_fips_calls calls_subset subsetI)
  with ans have a: "\<forall>e \<in> set (library_calls p). answer q e = answer p e" by blast
  show ?thesis
    using flags agree_on_calls [OF a] by (intro test_fips_cong) simp_all
qed

subsection \<open>Order of the library calls\<close>

text \<open>The self-test is never the first library call.\<close>

lemma seed_before_cast:
  assumes t: "t = pre @ RunAllCast_fips # post"
    and c: "calls t = [] \<or> (\<exists>rest. calls t = SetSeed_Cb cb # rest)"
  shows "SetSeed_Cb cb \<in> set pre"
proof -
  have split: "calls t = calls pre @ RunAllCast_fips # calls post"
    using t by simp
  with c obtain rest where r: "calls pre @ RunAllCast_fips # calls post = SetSeed_Cb cb # rest"
    by auto
  then have "calls pre \<noteq> []" by (cases "calls pre") auto
  with r have "hd (calls pre) = SetSeed_Cb cb" by (cases "calls pre") auto
  with \<open>calls pre \<noteq> []\<close> have "SetSeed_Cb cb \<in> set (calls pre)" by (metis hd_in_set)
  then show ?thesis by (rule calls_subset)
qed

subsection \<open>Failures of the digest calls\<close>

lemma answer_on_calls:
  "(\<forall>e \<in> set t. answer q e = answer p e) = (\<forall>e \<in> set (calls t). answer q e = answer p e)"
proof
  assume "\<forall>e \<in> set t. answer q e = answer p e"
  then show "\<forall>e \<in> set (calls t). answer q e = answer p e"
    by (simp add: calls_def)
next
  assume a: "\<forall>e \<in> set (calls t). answer q e = answer p e"
  show "\<forall>e \<in> set t. answer q e = answer p e"
  proof
    fix e assume "e \<in> set t"
    with a show "answer q e = answer p e"
      by (cases e) (auto simp: calls_def)
  qed
qed

text \<open>A run that does not call \<^verbatim>\<open>wc_Sha256Final\<close> does not depend on the digest bytes.\<close>

lemma startup_hash_unused:
  assumes "Sha256Final \<notin> set (trace (fips_startup_check_main p))"
  shows "fips_startup_check_main (p\<lparr>Sha256Final_hash := h\<rparr>) = fips_startup_check_main p"
proof (rule startup_agree)
  show "\<forall>e \<in> set (trace (fips_startup_check_main p)).
          answer (p\<lparr>Sha256Final_hash := h\<rparr>) e = answer p e"
  proof
    fix e assume "e \<in> set (trace (fips_startup_check_main p))"
    with assms show "answer (p\<lparr>Sha256Final_hash := h\<rparr>) e = answer p e"
      by (cases e) auto
  qed
qed simp_all

lemma test_fips_hash_unused:
  assumes "Sha256Final \<notin> set (trace (test_fips_main p))"
  shows "test_fips_main (p\<lparr>Sha256Final_hash := h\<rparr>) = test_fips_main p"
proof (rule test_fips_agree)
  show "\<forall>e \<in> set (trace (test_fips_main p)).
          answer (p\<lparr>Sha256Final_hash := h\<rparr>) e = answer p e"
  proof
    fix e assume "e \<in> set (trace (test_fips_main p))"
    with assms show "answer (p\<lparr>Sha256Final_hash := h\<rparr>) e = answer p e"
      by (cases e) auto
  qed
qed simp_all

lemma check1_passes_hash [simp]:
  "check1_passes (p\<lparr>Sha256Final_hash := h\<rparr>) = check1_passes p"
  by (simp add: check1_passes_def)

lemma startup_check1_hash [simp]:
  "startup_check1 (p\<lparr>Sha256Final_hash := h\<rparr>) out = startup_check1 p out"
  by (rule startup_check1_cong) simp_all

text \<open>The six failures of a digest call, one lemma each.\<close>

lemma startup_init_failure:
  assumes "InitSha256 \<in> set (trace (fips_startup_check_main p))" and "wc_InitSha256 p \<noteq> 0"
  shows "exit_code (fips_startup_check_main p) = 1"
    and "suffix [InitSha256,
                 Printf (''      '' @ cross_mark @
                         '' SHA-256 initialization failed (error code: %d)\<newline>'')
                   [wc_InitSha256 p]]
           (trace (fips_startup_check_main p))"
    and "calls (trace (fips_startup_check_main p)) =
           [SetSeed_Cb wc_GenerateSeed, RunAllCast_fips, InitSha256]"
    and "hash (fips_startup_check_main p) = None"
    and "fips_startup_check_main (p\<lparr>Sha256Final_hash := h\<rparr>) = fips_startup_check_main p"
proof -
  from assms have c: "check1_passes p" "wc_RunAllCast_fips p = 0"
    by (simp_all add: startup_reaches)
  show "exit_code (fips_startup_check_main p) = 1"
    using assms(2) by (simp add: startup_exit_code_gen digest_calls_succeed_def)
  show "suffix [InitSha256,
                 Printf (''      '' @ cross_mark @
                         '' SHA-256 initialization failed (error code: %d)\<newline>'')
                   [wc_InitSha256 p]]
           (trace (fips_startup_check_main p))"
    by (simp add: startup_main_digest [OF c] startup_check3_init_fail [OF assms(2)]
          suffix_append suffix_Cons)
  show "calls (trace (fips_startup_check_main p)) =
           [SetSeed_Cb wc_GenerateSeed, RunAllCast_fips, InitSha256]"
    using c assms(2) by (simp add: startup_calls library_calls_def)
  show "hash (fips_startup_check_main p) = None"
    using assms(2) by (simp add: startup_hash)
  show "fips_startup_check_main (p\<lparr>Sha256Final_hash := h\<rparr>) = fips_startup_check_main p"
    using assms(2) by (intro startup_hash_unused) (simp add: startup_reaches)
qed

lemma startup_update_failure:
  assumes "Sha256Update testData 3 \<in> set (trace (fips_startup_check_main p))"
    and "wc_Sha256Update p \<noteq> 0"
  shows "exit_code (fips_startup_check_main p) = 1"
    and "suffix [Sha256Update testData 3,
                 Printf (''      '' @ cross_mark @
                         '' SHA-256 update failed (error code: %d)\<newline>'')
                   [wc_Sha256Update p]]
           (trace (fips_startup_check_main p))"
    and "calls (trace (fips_startup_check_main p)) =
           [SetSeed_Cb wc_GenerateSeed, RunAllCast_fips, InitSha256, Sha256Update testData 3]"
    and "hash (fips_startup_check_main p) = None"
    and "fips_startup_check_main (p\<lparr>Sha256Final_hash := h\<rparr>) = fips_startup_check_main p"
proof -
  from assms have c: "check1_passes p" "wc_RunAllCast_fips p = 0" and i: "wc_InitSha256 p = 0"
    by (simp_all add: startup_reaches)
  show "exit_code (fips_startup_check_main p) = 1"
    using assms(2) by (simp add: startup_exit_code_gen digest_calls_succeed_def)
  show "suffix [Sha256Update testData 3,
                 Printf (''      '' @ cross_mark @
                         '' SHA-256 update failed (error code: %d)\<newline>'')
                   [wc_Sha256Update p]]
           (trace (fips_startup_check_main p))"
    by (simp add: startup_main_digest [OF c] startup_check3_update_fail [OF i assms(2)]
          suffix_append suffix_Cons)
  show "calls (trace (fips_startup_check_main p)) =
           [SetSeed_Cb wc_GenerateSeed, RunAllCast_fips, InitSha256, Sha256Update testData 3]"
    using c i assms(2) by (simp add: startup_calls library_calls_def)
  show "hash (fips_startup_check_main p) = None"
    using assms(2) by (simp add: startup_hash)
  show "fips_startup_check_main (p\<lparr>Sha256Final_hash := h\<rparr>) = fips_startup_check_main p"
    using assms(2) by (intro startup_hash_unused) (simp add: startup_reaches)
qed

lemma startup_final_failure:
  assumes "Sha256Final \<in> set (trace (fips_startup_check_main p))" and "wc_Sha256Final p \<noteq> 0"
  shows "exit_code (fips_startup_check_main p) = 1"
    and "suffix [Sha256Final,
                 Printf (''      '' @ cross_mark @
                         '' SHA-256 finalization failed (error code: %d)\<newline>'')
                   [wc_Sha256Final p]]
           (trace (fips_startup_check_main p))"
    and "calls (trace (fips_startup_check_main p)) =
           [SetSeed_Cb wc_GenerateSeed, RunAllCast_fips, InitSha256, Sha256Update testData 3,
            Sha256Final]"
    and "trace (fips_startup_check_main (p\<lparr>Sha256Final_hash := h\<rparr>)) =
           trace (fips_startup_check_main p)"
proof -
  from assms have c: "check1_passes p" "wc_RunAllCast_fips p = 0"
    and i: "wc_InitSha256 p = 0" and u: "wc_Sha256Update p = 0"
    by (simp_all add: startup_reaches)
  show "exit_code (fips_startup_check_main p) = 1"
    using assms(2) by (simp add: startup_exit_code_gen digest_calls_succeed_def)
  show "suffix [Sha256Final,
                 Printf (''      '' @ cross_mark @
                         '' SHA-256 finalization failed (error code: %d)\<newline>'')
                   [wc_Sha256Final p]]
           (trace (fips_startup_check_main p))"
    by (simp add: startup_main_digest [OF c] startup_check3_final_fail [OF i u assms(2)]
          suffix_append suffix_Cons)
  show "calls (trace (fips_startup_check_main p)) =
           [SetSeed_Cb wc_GenerateSeed, RunAllCast_fips, InitSha256, Sha256Update testData 3,
            Sha256Final]"
    using c i u by (simp add: startup_calls library_calls_def)
  show "trace (fips_startup_check_main (p\<lparr>Sha256Final_hash := h\<rparr>)) =
           trace (fips_startup_check_main p)"
    using c i u assms(2)
    by (simp add: startup_main_digest startup_check3_final_fail)
qed

lemma test_fips_init_failure:
  assumes "InitSha256 \<in> set (trace (test_fips_main p))" and "wc_InitSha256 p \<noteq> 0"
  shows "exit_code (test_fips_main p) = 1"
    and "suffix [InitSha256, Printf ''SHA256 Init failed: %d\<newline>'' [wc_InitSha256 p]]
           (trace (test_fips_main p))"
    and "calls (trace (test_fips_main p)) =
           [SetSeed_Cb wc_GenerateSeed, RunAllCast_fips, InitSha256]"
    and "hash (test_fips_main p) = None"
    and "test_fips_main (p\<lparr>Sha256Final_hash := h\<rparr>) = test_fips_main p"
proof -
  from assms have c: "wc_RunAllCast_fips p = 0"
    by (simp add: test_fips_reaches)
  show "exit_code (test_fips_main p) = 1"
    using assms(2) by (simp add: test_fips_exit_code digest_calls_succeed_def)
  show "suffix [InitSha256, Printf ''SHA256 Init failed: %d\<newline>'' [wc_InitSha256 p]]
           (trace (test_fips_main p))"
    using c assms(2) by (simp add: test_fips_main_def Let_def suffix_append suffix_Cons)
  show "calls (trace (test_fips_main p)) =
           [SetSeed_Cb wc_GenerateSeed, RunAllCast_fips, InitSha256]"
    using c assms(2) by (simp add: test_fips_calls library_calls_def)
  show "hash (test_fips_main p) = None"
    using assms(2) by (simp add: test_fips_hash)
  show "test_fips_main (p\<lparr>Sha256Final_hash := h\<rparr>) = test_fips_main p"
    using assms(2) by (intro test_fips_hash_unused) (simp add: test_fips_reaches)
qed

lemma test_fips_update_failure:
  assumes "Sha256Update testData 3 \<in> set (trace (test_fips_main p))"
    and "wc_Sha256Update p \<noteq> 0"
  shows "exit_code (test_fips_main p) = 1"
    and "suffix [Sha256Update testData 3,
                 Printf ''SHA256 Update failed: %d\<newline>'' [wc_Sha256Update p]]
           (trace (test_fips_main p))"
    and "calls (trace (test_fips_main p)) =
           [SetSeed_Cb wc_GenerateSeed, RunAllCast_fips, InitSha256, Sha256Update testData 3]"
    and "hash (test_fips_main p) = None"
    and "test_fips_main (p\<lparr>Sha256Final_hash := h\<rparr>) = test_fips_main p"
proof -
  from assms have c: "wc_RunAllCast_fips p = 0" and i: "wc_InitSha256 p = 0"
    by (simp_all add: test_fips_reaches)
  show "exit_code (test_fips_main p) = 1"
    using assms(2) by (simp add: test_fips_exit_code digest_calls_succeed_def)
  show "suffix [Sha256Update testData 3,
                 Printf ''SHA256 Update failed: %d\<newline>'' [wc_Sha256Update p]]
           (trace (test_fips_main p))"
    using c i assms(2) by (simp add: test_fips_main_def Let_def suffix_append suffix_Cons)
  show "calls (trace (test_fips_main p)) =
           [SetSeed_Cb wc_GenerateSeed, RunAllCast_fips, InitSha256, Sha256Update testData 3]"
    using c i assms(2) by (simp add: test_fips_calls library_calls_def)
  show "hash (test_fips_main p) = None"
    using assms(2) by (simp add: test_fips_hash)
  show "test_fips_main (p\<lparr>Sha256Final_hash := h\<rparr>) = test_fips_main p"
    using assms(2) by (intro test_fips_hash_unused) (simp add: test_fips_reaches)
qed

lemma test_fips_final_failure:
  assumes "Sha256Final \<in> set (trace (test_fips_main p))" and "wc_Sha256Final p \<noteq> 0"
  shows "exit_code (test_fips_main p) = 1"
    and "suffix [Sha256Final, Printf ''SHA256 Final failed: %d\<newline>'' [wc_Sha256Final p]]
           (trace (test_fips_main p))"
    and "calls (trace (test_fips_main p)) =
           [SetSeed_Cb wc_GenerateSeed, RunAllCast_fips, InitSha256, Sha256Update testData 3,
            Sha256Final]"
    and "trace (test_fips_main (p\<lparr>Sha256Final_hash := h\<rparr>)) = trace (test_fips_main p)"
proof -
  from assms have c: "wc_RunAllCast_fips p = 0" and i: "wc_InitSha256 p = 0"
    and u: "wc_Sha256Update p = 0"
    by (simp_all add: test_fips_reaches)
  show "exit_code (test_fips_main p) = 1"
    using assms(2) by (simp add: test_fips_exit_code digest_calls_succeed_def)
  show "suffix [Sha256Final, Printf ''SHA256 Final failed: %d\<newline>'' [wc_Sha256Final p]]
           (trace (test_fips_main p))"
    using c i u assms(2) by (simp add: test_fips_main_def Let_def suffix_append suffix_Cons)
  show "calls (trace (test_fips_main p)) =
           [SetSeed_Cb wc_GenerateSeed, RunAllCast_fips, InitSha256, Sha256Update testData 3,
            Sha256Final]"
    using c i u by (simp add: test_fips_calls library_calls_def)
  show "trace (test_fips_main (p\<lparr>Sha256Final_hash := h\<rparr>)) = trace (test_fips_main p)"
    using c i u assms(2) by (simp add: test_fips_main_def Let_def)
qed

subsection \<open>The expected digest\<close>

lemma hex_of_expected:
  "hex_of expected = ''ba7816bf8f01cfea414140de5dae2223b00361a396177a9cb410ff61f20015ad''"
  by code_simp

lemma sha256_abc: "sha256 (map of_char ''abc'') = expected"
  by code_simp

lemma testData_bytes: "take 3 testData = map of_char ''abc''"
  by (simp add: testData_def c_str_def)

section \<open>The claims\<close>

text \<open>
  C1, as amended. With a digest buffer of 32 bytes, fips-startup-check exits with status 0
  exactly when check 1 passes, the CAST self-test returns 0, the three digest calls return 0
  and the digest equals the expected constant, and with status 1 otherwise. test-fips exits
  with status 0 exactly when the CAST self-test and the three digest calls return 0, whatever
  the FIPS flags and the digest bytes are, and with status 1 otherwise. No other status occurs.
\<close>

theorem exit_status_by_checks:
  assumes "length (Sha256Final_hash p) = WC_SHA256_DIGEST_SIZE"
  shows "exit_code (fips_startup_check_main p) =
           (if check1_passes p \<and> wc_RunAllCast_fips p = 0 \<and> digest_calls_succeed p \<and>
               Sha256Final_hash p = expected then 0 else 1) \<and>
         exit_code (test_fips_main p) =
           (if wc_RunAllCast_fips p = 0 \<and> digest_calls_succeed p then 0 else 1)"
  using assms by (simp add: startup_exit_code test_fips_exit_code)

theorem exit_status_by_checks_witness:
  "length (Sha256Final_hash nominal) = WC_SHA256_DIGEST_SIZE \<and>
   exit_code (fips_startup_check_main nominal) = 0 \<and>
   exit_code (test_fips_main nominal) = 0 \<and>
   exit_code (fips_startup_check_main (nominal\<lparr>wc_Sha256Update := -173\<rparr>)) = 1 \<and>
   exit_code (test_fips_main (nominal\<lparr>wc_Sha256Update := -173\<rparr>)) = 1"
  using exit_status_by_checks [of nominal]
    exit_status_by_checks [of "nominal\<lparr>wc_Sha256Update := -173\<rparr>"]
  by (simp add: nominal_def check1_passes_def digest_calls_succeed_def length_expected)

text \<open>
  C1 as stated fails for test-fips: in a build without FIPS, check 1 does not pass and
  test-fips exits with status 0.
\<close>

theorem test_fips_exit_0_fips_disabled:
  "\<not> check1_passes (nominal\<lparr>HAVE_FIPS := False\<rparr>) \<and>
   exit_code (test_fips_main (nominal\<lparr>HAVE_FIPS := False\<rparr>)) = 0"
  by (simp add: nominal_def check1_passes_def test_fips_exit_code digest_calls_succeed_def)

text \<open>
  C2, as amended. In every run of fips-startup-check in which \<^verbatim>\<open>wc_Sha256Final\<close> has been
  called (so the two digest calls before it have returned 0) and returns 0, and the 32 bytes
  of the digest differ from the expected constant, the run ends with the two lines of the
  mismatch message and the exit status 1. The comparison loop leaves \<open>match\<close> at 1 exactly
  when the whole buffer equals the constant. test-fips does not compare the digest: in such a
  run it prints the 32 bytes in hexadecimal, then the expected digest, and exits with status 0.
\<close>

theorem digest_mismatch:
  assumes "wc_Sha256Final p = 0"
    and "length (Sha256Final_hash p) = WC_SHA256_DIGEST_SIZE"
    and "Sha256Final_hash p \<noteq> expected"
  shows "(Sha256Final \<in> set (trace (fips_startup_check_main p)) \<longrightarrow>
            exit_code (fips_startup_check_main p) = 1 \<and>
            suffix [Sha256Final,
                    Printf (''      '' @ cross_mark @ '' SHA-256 test vector mismatch\<newline>'') [],
                    Printf ''      Cryptographic operation produced incorrect result\<newline>'' []]
              (trace (fips_startup_check_main p))) \<and>
         (length h = WC_SHA256_DIGEST_SIZE \<longrightarrow>
            fst (match_loop h expected 1 0) = (if h = expected then 1 else 0)) \<and>
         (Sha256Final \<in> set (trace (test_fips_main p)) \<longrightarrow>
            exit_code (test_fips_main p) = 0 \<and>
            suffix (Sha256Final #
                    Printf (''SHA256('' @ [CHR 0x27] @ ''abc'' @ [CHR 0x27] @ '') = '') [] #
                    map (\<lambda>j. Printf ''%02x'' [ucast (Sha256Final_hash p ! j)])
                      [0..<WC_SHA256_DIGEST_SIZE] @
                    [Printf ''\<newline>'' [],
                     Printf ''Expected:       ba7816bf8f01cfea414140de5dae2223b00361a396177a9cb410ff61f20015ad\<newline>'' [],
                     Printf (''\<newline>wolfSSL FIPS test: ALL PASSED '' @ check_mark @ ''\<newline>'') []])
              (trace (test_fips_main p)))"
proof (intro conjI impI)
  assume reach: "Sha256Final \<in> set (trace (fips_startup_check_main p))"
  then have c: "check1_passes p" "wc_RunAllCast_fips p = 0" and d: "digest_calls_succeed p"
    using assms(1) by (simp_all add: startup_reaches digest_calls_succeed_def)
  have m: "fst (match_loop (Sha256Final_hash p) expected 1 0) = 0"
    using assms by (simp add: match_loop_expected)
  show "exit_code (fips_startup_check_main p) = 1"
    using m by (simp add: startup_exit_code_gen)
  show "suffix [Sha256Final,
                Printf (''      '' @ cross_mark @ '' SHA-256 test vector mismatch\<newline>'') [],
                Printf ''      Cryptographic operation produced incorrect result\<newline>'' []]
          (trace (fips_startup_check_main p))"
    by (simp add: startup_main_digest [OF c] startup_check3_mismatch [OF d m]
          suffix_append suffix_Cons)
next
  assume "length h = WC_SHA256_DIGEST_SIZE"
  then show "fst (match_loop h expected 1 0) = (if h = expected then 1 else 0)"
    by (rule match_loop_expected)
next
  assume reach: "Sha256Final \<in> set (trace (test_fips_main p))"
  then have c: "wc_RunAllCast_fips p = 0" "wc_InitSha256 p = 0" "wc_Sha256Update p = 0"
    by (simp_all add: test_fips_reaches)
  show "exit_code (test_fips_main p) = 0"
    using c assms(1) by (simp add: test_fips_exit_code digest_calls_succeed_def)
  show "suffix (Sha256Final #
                Printf (''SHA256('' @ [CHR 0x27] @ ''abc'' @ [CHR 0x27] @ '') = '') [] #
                map (\<lambda>j. Printf ''%02x'' [ucast (Sha256Final_hash p ! j)])
                  [0..<WC_SHA256_DIGEST_SIZE] @
                [Printf ''\<newline>'' [],
                 Printf ''Expected:       ba7816bf8f01cfea414140de5dae2223b00361a396177a9cb410ff61f20015ad\<newline>'' [],
                 Printf (''\<newline>wolfSSL FIPS test: ALL PASSED '' @ check_mark @ ''\<newline>'') []])
          (trace (test_fips_main p))"
    using c assms(1)
    by (simp add: test_fips_main_def Let_def case_prod_beta print_loop_eq suffix_def)
qed

theorem digest_mismatch_witness:
  "wc_Sha256Final wrong_digest = 0 \<and>
   length (Sha256Final_hash wrong_digest) = WC_SHA256_DIGEST_SIZE \<and>
   Sha256Final_hash wrong_digest \<noteq> expected \<and>
   Sha256Final \<in> set (trace (fips_startup_check_main wrong_digest)) \<and>
   Sha256Final \<in> set (trace (test_fips_main wrong_digest)) \<and>
   exit_code (fips_startup_check_main wrong_digest) = 1 \<and>
   fst (match_loop (expected[31 := 0xae]) expected 1 0) = 0 \<and>
   exit_code (test_fips_main wrong_digest) = 0"
proof -
  have f: "wc_Sha256Final wrong_digest = 0"
    by (simp add: wrong_digest_def nominal_def)
  have l: "length (Sha256Final_hash wrong_digest) = WC_SHA256_DIGEST_SIZE"
    by (simp add: wrong_digest_def nominal_def length_expected)
  have n': "expected[31 := 0xae] \<noteq> expected"
    by code_simp
  then have n: "Sha256Final_hash wrong_digest \<noteq> expected"
    by (simp add: wrong_digest_def nominal_def)
  have r1: "Sha256Final \<in> set (trace (fips_startup_check_main wrong_digest))"
    by (simp add: startup_reaches check1_passes_def wrong_digest_def nominal_def)
  have r2: "Sha256Final \<in> set (trace (test_fips_main wrong_digest))"
    by (simp add: test_fips_reaches wrong_digest_def nominal_def)
  have l': "length (expected[31 := 0xae]) = WC_SHA256_DIGEST_SIZE"
    by (simp add: length_expected)
  show ?thesis
    using f l n r1 r2 l' n' digest_mismatch [OF f l n, of "expected[31 := 0xae]"] by simp
qed

text \<open>
  C2 as stated fails for test-fips: with a digest whose last byte is wrong and all calls
  successful it exits with status 0.
\<close>

theorem test_fips_accepts_wrong_digest:
  "digest_calls_succeed wrong_digest \<and> Sha256Final_hash wrong_digest \<noteq> expected \<and>
   exit_code (test_fips_main wrong_digest) = 0"
proof -
  have "expected[31 := 0xae] \<noteq> expected"
    by code_simp
  then show ?thesis
    by (simp add: wrong_digest_def nominal_def digest_calls_succeed_def test_fips_exit_code)
qed

text \<open>
  C3, as amended. In a build without FIPS, fips-startup-check stops at check 1: it prints the
  banner, the line of check 1 and the two lines saying that FIPS is disabled, returns 1, and
  calls neither the CAST self-test nor any digest operation. test-fips prints the warning
  "FIPS mode: DISABLED (WARNING!)" and goes on with the CAST self-test all the same; its exit
  status does not depend on the flag.
\<close>

theorem fips_disabled:
  assumes "\<not> HAVE_FIPS p"
  shows "fips_startup_check_main p =
           \<lparr>trace = banner @
              [Printf ''[1/3] Checking FIPS compile-time configuration...\<newline>'' [],
               Printf (''      '' @ cross_mark @ '' ERROR: FIPS mode is DISABLED\<newline>'') [],
               Printf ''      This binary was not compiled with FIPS support\<newline>'' []],
            exit_code = 1, hash = None\<rparr> \<and>
         calls (trace (fips_startup_check_main p)) = [] \<and>
         prefix [Printf ''Testing wolfSSL FIPS installation...\<newline>'' [],
                 Printf ''FIPS mode: DISABLED (WARNING!)\<newline>'' [],
                 Printf ''\<newline>Running FIPS CAST (Known Answer Tests)...\<newline>'' [],
                 SetSeed_Cb wc_GenerateSeed, RunAllCast_fips]
           (trace (test_fips_main p)) \<and>
         exit_code (test_fips_main p) = exit_code (test_fips_main (p\<lparr>HAVE_FIPS := True\<rparr>))"
proof (intro conjI)
  from assms have n: "\<not> check1_passes p" by (simp add: check1_passes_def)
  from assms show "fips_startup_check_main p =
           \<lparr>trace = banner @
              [Printf ''[1/3] Checking FIPS compile-time configuration...\<newline>'' [],
               Printf (''      '' @ cross_mark @ '' ERROR: FIPS mode is DISABLED\<newline>'') [],
               Printf ''      This binary was not compiled with FIPS support\<newline>'' []],
            exit_code = 1, hash = None\<rparr>"
    by (simp add: startup_main_fail [OF n] startup_check1_def)
  from n show "calls (trace (fips_startup_check_main p)) = []"
    by (simp add: startup_calls)
  from assms show "prefix [Printf ''Testing wolfSSL FIPS installation...\<newline>'' [],
                 Printf ''FIPS mode: DISABLED (WARNING!)\<newline>'' [],
                 Printf ''\<newline>Running FIPS CAST (Known Answer Tests)...\<newline>'' [],
                 SetSeed_Cb wc_GenerateSeed, RunAllCast_fips]
           (trace (test_fips_main p))"
    by (simp add: test_fips_main_def Let_def case_prod_beta print_loop_eq)
  show "exit_code (test_fips_main p) = exit_code (test_fips_main (p\<lparr>HAVE_FIPS := True\<rparr>))"
    by (simp add: test_fips_exit_code digest_calls_succeed_def)
qed

theorem fips_disabled_witness:
  "\<not> HAVE_FIPS (nominal\<lparr>HAVE_FIPS := False\<rparr>) \<and>
   exit_code (fips_startup_check_main (nominal\<lparr>HAVE_FIPS := False\<rparr>)) = 1 \<and>
   calls (trace (fips_startup_check_main (nominal\<lparr>HAVE_FIPS := False\<rparr>))) = [] \<and>
   exit_code (test_fips_main (nominal\<lparr>HAVE_FIPS := False\<rparr>)) = exit_code (test_fips_main nominal)"
proof -
  have h: "\<not> HAVE_FIPS (nominal\<lparr>HAVE_FIPS := False\<rparr>)" by simp
  have "nominal\<lparr>HAVE_FIPS := False, HAVE_FIPS := True\<rparr> = nominal"
    by (simp add: nominal_def)
  with fips_disabled [OF h] show ?thesis by (simp add: banner_def)
qed

text \<open>
  C3 as stated fails for test-fips: in a build without FIPS it calls the CAST self-test and
  the digest operations, and does not exit with status 1.
\<close>

theorem test_fips_runs_cast_fips_disabled:
  "\<not> HAVE_FIPS (nominal\<lparr>HAVE_FIPS := False\<rparr>) \<and>
   calls (trace (test_fips_main (nominal\<lparr>HAVE_FIPS := False\<rparr>))) =
     [SetSeed_Cb wc_GenerateSeed, RunAllCast_fips, InitSha256, Sha256Update testData 3,
      Sha256Final] \<and>
   exit_code (test_fips_main (nominal\<lparr>HAVE_FIPS := False\<rparr>)) \<noteq> 1"
  by (simp add: test_fips_calls library_calls_def test_fips_exit_code digest_calls_succeed_def
        nominal_def)

text \<open>
  C4, as amended. In a FIPS build: if the version is defined and below 5, fips-startup-check
  prints it and the error, returns 1 and makes no library call; if no version is defined, it
  prints the warning and continues with check 2, so the CAST self-test is invoked. test-fips
  prints the version, or that none is available, and continues with the CAST self-test in
  either case, whatever the version is.
\<close>

theorem fips_version_policy:
  assumes "HAVE_FIPS p"
  shows "(HAVE_FIPS_VERSION p = Some v \<and> sint v < 5 \<longrightarrow>
            fips_startup_check_main p =
              \<lparr>trace = banner @
                 [Printf ''[1/3] Checking FIPS compile-time configuration...\<newline>'' [],
                  Printf (''      '' @ check_mark @ '' FIPS mode: ENABLED\<newline>'') [],
                  Printf (''      '' @ check_mark @ '' FIPS version: %d\<newline>'') [v],
                  Printf (''      '' @ cross_mark @
                          '' ERROR: FIPS version must be 5 or higher\<newline>'') []],
               exit_code = 1, hash = None\<rparr> \<and>
            calls (trace (fips_startup_check_main p)) = []) \<and>
         (HAVE_FIPS_VERSION p = None \<longrightarrow>
            fips_startup_check_main p =
              startup_check2 p (banner @
                 [Printf ''[1/3] Checking FIPS compile-time configuration...\<newline>'' [],
                  Printf (''      '' @ check_mark @ '' FIPS mode: ENABLED\<newline>'') [],
                  Printf (''      '' @ warning_sign @
                          '' FIPS version macro not available\<newline>'') []]) \<and>
            RunAllCast_fips \<in> set (trace (fips_startup_check_main p))) \<and>
         prefix [Printf ''Testing wolfSSL FIPS installation...\<newline>'' [],
                 Printf ''FIPS mode: ENABLED\<newline>'' [],
                 (case HAVE_FIPS_VERSION p of
                    Some v \<Rightarrow> Printf ''FIPS version: %d\<newline>'' [v]
                  | None \<Rightarrow>
                      Printf ''FIPS version: Enabled (version macro not available)\<newline>'' []),
                 Printf ''\<newline>Running FIPS CAST (Known Answer Tests)...\<newline>'' [],
                 SetSeed_Cb wc_GenerateSeed, RunAllCast_fips]
           (trace (test_fips_main p)) \<and>
         exit_code (test_fips_main p) = exit_code (test_fips_main (p\<lparr>HAVE_FIPS_VERSION := w\<rparr>))"
proof (intro conjI impI)
  assume low: "HAVE_FIPS_VERSION p = Some v \<and> sint v < 5"
  with assms have n: "\<not> check1_passes p" by (simp add: check1_passes_def)
  from assms low show "fips_startup_check_main p =
              \<lparr>trace = banner @
                 [Printf ''[1/3] Checking FIPS compile-time configuration...\<newline>'' [],
                  Printf (''      '' @ check_mark @ '' FIPS mode: ENABLED\<newline>'') [],
                  Printf (''      '' @ check_mark @ '' FIPS version: %d\<newline>'') [v],
                  Printf (''      '' @ cross_mark @
                          '' ERROR: FIPS version must be 5 or higher\<newline>'') []],
               exit_code = 1, hash = None\<rparr>"
    by (simp add: startup_main_fail [OF n] startup_check1_def)
  from n show "calls (trace (fips_startup_check_main p)) = []"
    by (simp add: startup_calls)
next
  assume none: "HAVE_FIPS_VERSION p = None"
  with assms have c: "check1_passes p" by (simp add: check1_passes_def)
  from assms none show "fips_startup_check_main p =
              startup_check2 p (banner @
                 [Printf ''[1/3] Checking FIPS compile-time configuration...\<newline>'' [],
                  Printf (''      '' @ check_mark @ '' FIPS mode: ENABLED\<newline>'') [],
                  Printf (''      '' @ warning_sign @
                          '' FIPS version macro not available\<newline>'') []])"
    by (simp add: startup_main_pass [OF c] startup_check1_def)
  from c show "RunAllCast_fips \<in> set (trace (fips_startup_check_main p))"
    by (simp add: startup_reaches)
next
  from assms show "prefix [Printf ''Testing wolfSSL FIPS installation...\<newline>'' [],
                 Printf ''FIPS mode: ENABLED\<newline>'' [],
                 (case HAVE_FIPS_VERSION p of
                    Some v \<Rightarrow> Printf ''FIPS version: %d\<newline>'' [v]
                  | None \<Rightarrow>
                      Printf ''FIPS version: Enabled (version macro not available)\<newline>'' []),
                 Printf ''\<newline>Running FIPS CAST (Known Answer Tests)...\<newline>'' [],
                 SetSeed_Cb wc_GenerateSeed, RunAllCast_fips]
           (trace (test_fips_main p))"
    by (simp add: test_fips_main_def Let_def case_prod_beta print_loop_eq split: option.split)
next
  show "exit_code (test_fips_main p) = exit_code (test_fips_main (p\<lparr>HAVE_FIPS_VERSION := w\<rparr>))"
    by (simp add: test_fips_exit_code digest_calls_succeed_def)
qed

theorem fips_version_policy_witness:
  "HAVE_FIPS (nominal\<lparr>HAVE_FIPS_VERSION := Some 2\<rparr>) \<and>
   HAVE_FIPS_VERSION (nominal\<lparr>HAVE_FIPS_VERSION := Some 2\<rparr>) = Some 2 \<and> sint (2 :: c_int) < 5 \<and>
   exit_code (fips_startup_check_main (nominal\<lparr>HAVE_FIPS_VERSION := Some 2\<rparr>)) = 1 \<and>
   calls (trace (fips_startup_check_main (nominal\<lparr>HAVE_FIPS_VERSION := Some 2\<rparr>))) = [] \<and>
   HAVE_FIPS (nominal\<lparr>HAVE_FIPS_VERSION := None\<rparr>) \<and>
   HAVE_FIPS_VERSION (nominal\<lparr>HAVE_FIPS_VERSION := None\<rparr>) = None \<and>
   RunAllCast_fips \<in> set (trace (fips_startup_check_main (nominal\<lparr>HAVE_FIPS_VERSION := None\<rparr>)))"
proof -
  have a: "HAVE_FIPS (nominal\<lparr>HAVE_FIPS_VERSION := Some 2\<rparr>)"
    and b: "HAVE_FIPS (nominal\<lparr>HAVE_FIPS_VERSION := None\<rparr>)"
    by (simp_all add: nominal_def)
  have v: "HAVE_FIPS_VERSION (nominal\<lparr>HAVE_FIPS_VERSION := Some 2\<rparr>) = Some 2 \<and>
           sint (2 :: c_int) < 5"
    by simp
  have n: "HAVE_FIPS_VERSION (nominal\<lparr>HAVE_FIPS_VERSION := None\<rparr>) = None"
    by simp
  from fips_version_policy [OF a, of 2 None] v
  have low: "fips_startup_check_main (nominal\<lparr>HAVE_FIPS_VERSION := Some 2\<rparr>) =
              \<lparr>trace = banner @
                 [Printf ''[1/3] Checking FIPS compile-time configuration...\<newline>'' [],
                  Printf (''      '' @ check_mark @ '' FIPS mode: ENABLED\<newline>'') [],
                  Printf (''      '' @ check_mark @ '' FIPS version: %d\<newline>'') [2],
                  Printf (''      '' @ cross_mark @
                          '' ERROR: FIPS version must be 5 or higher\<newline>'') []],
               exit_code = 1, hash = None\<rparr>"
    and nocall: "calls (trace (fips_startup_check_main (nominal\<lparr>HAVE_FIPS_VERSION := Some 2\<rparr>))) = []"
    by blast+
  from fips_version_policy [OF b, of 0 None] n
  have cast: "RunAllCast_fips \<in>
      set (trace (fips_startup_check_main (nominal\<lparr>HAVE_FIPS_VERSION := None\<rparr>)))"
    by blast
  have "exit_code (fips_startup_check_main (nominal\<lparr>HAVE_FIPS_VERSION := Some 2\<rparr>)) = 1"
    by (subst low) simp
  with a b v n nocall cast show ?thesis by blast
qed

text \<open>
  C4 as stated fails for test-fips: with FIPS version 4 it calls the CAST self-test and exits
  with status 0.
\<close>

theorem test_fips_accepts_low_version:
  "HAVE_FIPS (nominal\<lparr>HAVE_FIPS_VERSION := Some 4\<rparr>) \<and>
   HAVE_FIPS_VERSION (nominal\<lparr>HAVE_FIPS_VERSION := Some 4\<rparr>) = Some 4 \<and> sint (4 :: c_int) < 5 \<and>
   RunAllCast_fips \<in> set (trace (test_fips_main (nominal\<lparr>HAVE_FIPS_VERSION := Some 4\<rparr>))) \<and>
   exit_code (test_fips_main (nominal\<lparr>HAVE_FIPS_VERSION := Some 4\<rparr>)) = 0"
  by (simp add: test_fips_reaches test_fips_exit_code digest_calls_succeed_def nominal_def)

text \<open>
  C5. Whenever the CAST self-test has been invoked and returns a status other than 0, the run
  ends there: the last output is the CAST failure message with exactly that status as its
  argument (followed in fips-startup-check by one line of explanation), the exit status is 1,
  the only library calls of the run are the registration of the seed callback and the
  self-test, and nothing has been written to the digest buffer. test-fips always invokes the
  self-test.
\<close>

theorem cast_failure_stops:
  assumes "wc_RunAllCast_fips p \<noteq> 0"
  shows "(RunAllCast_fips \<in> set (trace (fips_startup_check_main p)) \<longrightarrow>
            exit_code (fips_startup_check_main p) = 1 \<and>
            suffix [SetSeed_Cb wc_GenerateSeed, RunAllCast_fips,
                    Printf (''      '' @ cross_mark @ '' FIPS CAST FAILED (error code: %d)\<newline>'')
                      [wc_RunAllCast_fips p],
                    Printf ''      FIPS cryptographic module validation failed\<newline>'' []]
              (trace (fips_startup_check_main p)) \<and>
            calls (trace (fips_startup_check_main p)) =
              [SetSeed_Cb wc_GenerateSeed, RunAllCast_fips] \<and>
            hash (fips_startup_check_main p) = None) \<and>
         exit_code (test_fips_main p) = 1 \<and>
         suffix [SetSeed_Cb wc_GenerateSeed, RunAllCast_fips,
                 Printf ''FIPS CAST failed: %d\<newline>'' [wc_RunAllCast_fips p]]
           (trace (test_fips_main p)) \<and>
         calls (trace (test_fips_main p)) = [SetSeed_Cb wc_GenerateSeed, RunAllCast_fips] \<and>
         hash (test_fips_main p) = None"
proof -
  have startup: "check1_passes p \<Longrightarrow>
      suffix [SetSeed_Cb wc_GenerateSeed, RunAllCast_fips,
              Printf (''      '' @ cross_mark @ '' FIPS CAST FAILED (error code: %d)\<newline>'')
                [wc_RunAllCast_fips p],
              Printf ''      FIPS cryptographic module validation failed\<newline>'' []]
        (trace (fips_startup_check_main p))"
    using assms
    by (simp add: startup_main_pass startup_check2_fail suffix_append suffix_Cons)
  have test: "suffix [SetSeed_Cb wc_GenerateSeed, RunAllCast_fips,
                 Printf ''FIPS CAST failed: %d\<newline>'' [wc_RunAllCast_fips p]]
           (trace (test_fips_main p))"
    using assms by (simp add: test_fips_main_def Let_def suffix_append suffix_Cons)
  show ?thesis
    using assms startup test
    by (simp add: startup_reaches startup_exit_code_gen startup_calls startup_hash
          test_fips_exit_code test_fips_calls test_fips_hash library_calls_def)
qed

theorem cast_failure_stops_witness:
  "wc_RunAllCast_fips (nominal\<lparr>wc_RunAllCast_fips := -203\<rparr>) \<noteq> 0 \<and>
   RunAllCast_fips \<in> set (trace (fips_startup_check_main (nominal\<lparr>wc_RunAllCast_fips := -203\<rparr>))) \<and>
   exit_code (fips_startup_check_main (nominal\<lparr>wc_RunAllCast_fips := -203\<rparr>)) = 1 \<and>
   exit_code (test_fips_main (nominal\<lparr>wc_RunAllCast_fips := -203\<rparr>)) = 1 \<and>
   Printf ''FIPS CAST failed: %d\<newline>'' [-203] \<in>
     set (trace (test_fips_main (nominal\<lparr>wc_RunAllCast_fips := -203\<rparr>)))"
proof -
  let ?p = "nominal\<lparr>wc_RunAllCast_fips := -203\<rparr>"
  have nz: "wc_RunAllCast_fips ?p \<noteq> 0" by (simp add: nominal_def)
  have reach: "RunAllCast_fips \<in> set (trace (fips_startup_check_main ?p))"
    by (simp add: startup_reaches check1_passes_def nominal_def)
  have "set [SetSeed_Cb wc_GenerateSeed, RunAllCast_fips,
             Printf ''FIPS CAST failed: %d\<newline>'' [wc_RunAllCast_fips ?p]]
          \<subseteq> set (trace (test_fips_main ?p))"
    using cast_failure_stops [OF nz] by (intro set_mono_suffix) simp
  then have "Printf ''FIPS CAST failed: %d\<newline>'' [-203] \<in> set (trace (test_fips_main ?p))"
    by (simp add: nominal_def)
  with nz reach cast_failure_stops [OF nz] show ?thesis by simp
qed

text \<open>
  C6. Whenever one of the three digest calls has been made and returns a status other than 0,
  the run ends there: the last event after the call is the failure message of that call with
  exactly that status as its argument, the exit status is 1, and no further library call is
  made (the list of calls ends with the failing one). The bytes of the digest buffer are not
  looked at: the output and the calls of the run are the same whatever the buffer contains,
  and after a failure of init or update nothing has been written to it.
\<close>

theorem digest_call_failure_stops:
  "(InitSha256 \<in> set (trace (fips_startup_check_main p)) \<and> wc_InitSha256 p \<noteq> 0 \<longrightarrow>
      exit_code (fips_startup_check_main p) = 1 \<and>
      suffix [InitSha256,
              Printf (''      '' @ cross_mark @
                      '' SHA-256 initialization failed (error code: %d)\<newline>'')
                [wc_InitSha256 p]]
        (trace (fips_startup_check_main p)) \<and>
      calls (trace (fips_startup_check_main p)) =
        [SetSeed_Cb wc_GenerateSeed, RunAllCast_fips, InitSha256] \<and>
      hash (fips_startup_check_main p) = None \<and>
      fips_startup_check_main (p\<lparr>Sha256Final_hash := h\<rparr>) = fips_startup_check_main p) \<and>
   (Sha256Update testData 3 \<in> set (trace (fips_startup_check_main p)) \<and>
    wc_Sha256Update p \<noteq> 0 \<longrightarrow>
      exit_code (fips_startup_check_main p) = 1 \<and>
      suffix [Sha256Update testData 3,
              Printf (''      '' @ cross_mark @
                      '' SHA-256 update failed (error code: %d)\<newline>'')
                [wc_Sha256Update p]]
        (trace (fips_startup_check_main p)) \<and>
      calls (trace (fips_startup_check_main p)) =
        [SetSeed_Cb wc_GenerateSeed, RunAllCast_fips, InitSha256, Sha256Update testData 3] \<and>
      hash (fips_startup_check_main p) = None \<and>
      fips_startup_check_main (p\<lparr>Sha256Final_hash := h\<rparr>) = fips_startup_check_main p) \<and>
   (Sha256Final \<in> set (trace (fips_startup_check_main p)) \<and> wc_Sha256Final p \<noteq> 0 \<longrightarrow>
      exit_code (fips_startup_check_main p) = 1 \<and>
      suffix [Sha256Final,
              Printf (''      '' @ cross_mark @
                      '' SHA-256 finalization failed (error code: %d)\<newline>'')
                [wc_Sha256Final p]]
        (trace (fips_startup_check_main p)) \<and>
      calls (trace (fips_startup_check_main p)) =
        [SetSeed_Cb wc_GenerateSeed, RunAllCast_fips, InitSha256, Sha256Update testData 3,
         Sha256Final] \<and>
      trace (fips_startup_check_main (p\<lparr>Sha256Final_hash := h\<rparr>)) =
        trace (fips_startup_check_main p)) \<and>
   (InitSha256 \<in> set (trace (test_fips_main p)) \<and> wc_InitSha256 p \<noteq> 0 \<longrightarrow>
      exit_code (test_fips_main p) = 1 \<and>
      suffix [InitSha256, Printf ''SHA256 Init failed: %d\<newline>'' [wc_InitSha256 p]]
        (trace (test_fips_main p)) \<and>
      calls (trace (test_fips_main p)) =
        [SetSeed_Cb wc_GenerateSeed, RunAllCast_fips, InitSha256] \<and>
      hash (test_fips_main p) = None \<and>
      test_fips_main (p\<lparr>Sha256Final_hash := h\<rparr>) = test_fips_main p) \<and>
   (Sha256Update testData 3 \<in> set (trace (test_fips_main p)) \<and> wc_Sha256Update p \<noteq> 0 \<longrightarrow>
      exit_code (test_fips_main p) = 1 \<and>
      suffix [Sha256Update testData 3,
              Printf ''SHA256 Update failed: %d\<newline>'' [wc_Sha256Update p]]
        (trace (test_fips_main p)) \<and>
      calls (trace (test_fips_main p)) =
        [SetSeed_Cb wc_GenerateSeed, RunAllCast_fips, InitSha256, Sha256Update testData 3] \<and>
      hash (test_fips_main p) = None \<and>
      test_fips_main (p\<lparr>Sha256Final_hash := h\<rparr>) = test_fips_main p) \<and>
   (Sha256Final \<in> set (trace (test_fips_main p)) \<and> wc_Sha256Final p \<noteq> 0 \<longrightarrow>
      exit_code (test_fips_main p) = 1 \<and>
      suffix [Sha256Final, Printf ''SHA256 Final failed: %d\<newline>'' [wc_Sha256Final p]]
        (trace (test_fips_main p)) \<and>
      calls (trace (test_fips_main p)) =
        [SetSeed_Cb wc_GenerateSeed, RunAllCast_fips, InitSha256, Sha256Update testData 3,
         Sha256Final] \<and>
      trace (test_fips_main (p\<lparr>Sha256Final_hash := h\<rparr>)) = trace (test_fips_main p))"
proof (intro conjI impI)
  assume a: "InitSha256 \<in> set (trace (fips_startup_check_main p)) \<and> wc_InitSha256 p \<noteq> 0"
  note r = startup_init_failure [OF conjunct1 [OF a] conjunct2 [OF a]]
  show "exit_code (fips_startup_check_main p) = 1" by (rule r)
  show "suffix [InitSha256,
              Printf (''      '' @ cross_mark @
                      '' SHA-256 initialization failed (error code: %d)\<newline>'')
                [wc_InitSha256 p]]
        (trace (fips_startup_check_main p))" by (rule r)
  show "calls (trace (fips_startup_check_main p)) =
        [SetSeed_Cb wc_GenerateSeed, RunAllCast_fips, InitSha256]" by (rule r)
  show "hash (fips_startup_check_main p) = None" by (rule r)
  show "fips_startup_check_main (p\<lparr>Sha256Final_hash := h\<rparr>) = fips_startup_check_main p"
    by (rule r)
next
  assume a: "Sha256Update testData 3 \<in> set (trace (fips_startup_check_main p)) \<and>
             wc_Sha256Update p \<noteq> 0"
  note r = startup_update_failure [OF conjunct1 [OF a] conjunct2 [OF a]]
  show "exit_code (fips_startup_check_main p) = 1" by (rule r)
  show "suffix [Sha256Update testData 3,
              Printf (''      '' @ cross_mark @
                      '' SHA-256 update failed (error code: %d)\<newline>'')
                [wc_Sha256Update p]]
        (trace (fips_startup_check_main p))" by (rule r)
  show "calls (trace (fips_startup_check_main p)) =
        [SetSeed_Cb wc_GenerateSeed, RunAllCast_fips, InitSha256, Sha256Update testData 3]"
    by (rule r)
  show "hash (fips_startup_check_main p) = None" by (rule r)
  show "fips_startup_check_main (p\<lparr>Sha256Final_hash := h\<rparr>) = fips_startup_check_main p"
    by (rule r)
next
  assume a: "Sha256Final \<in> set (trace (fips_startup_check_main p)) \<and> wc_Sha256Final p \<noteq> 0"
  note r = startup_final_failure [OF conjunct1 [OF a] conjunct2 [OF a]]
  show "exit_code (fips_startup_check_main p) = 1" by (rule r)
  show "suffix [Sha256Final,
              Printf (''      '' @ cross_mark @
                      '' SHA-256 finalization failed (error code: %d)\<newline>'')
                [wc_Sha256Final p]]
        (trace (fips_startup_check_main p))" by (rule r)
  show "calls (trace (fips_startup_check_main p)) =
        [SetSeed_Cb wc_GenerateSeed, RunAllCast_fips, InitSha256, Sha256Update testData 3,
         Sha256Final]" by (rule r)
  show "trace (fips_startup_check_main (p\<lparr>Sha256Final_hash := h\<rparr>)) =
        trace (fips_startup_check_main p)" by (rule r)
next
  assume a: "InitSha256 \<in> set (trace (test_fips_main p)) \<and> wc_InitSha256 p \<noteq> 0"
  note r = test_fips_init_failure [OF conjunct1 [OF a] conjunct2 [OF a]]
  show "exit_code (test_fips_main p) = 1" by (rule r)
  show "suffix [InitSha256, Printf ''SHA256 Init failed: %d\<newline>'' [wc_InitSha256 p]]
        (trace (test_fips_main p))" by (rule r)
  show "calls (trace (test_fips_main p)) =
        [SetSeed_Cb wc_GenerateSeed, RunAllCast_fips, InitSha256]" by (rule r)
  show "hash (test_fips_main p) = None" by (rule r)
  show "test_fips_main (p\<lparr>Sha256Final_hash := h\<rparr>) = test_fips_main p" by (rule r)
next
  assume a: "Sha256Update testData 3 \<in> set (trace (test_fips_main p)) \<and> wc_Sha256Update p \<noteq> 0"
  note r = test_fips_update_failure [OF conjunct1 [OF a] conjunct2 [OF a]]
  show "exit_code (test_fips_main p) = 1" by (rule r)
  show "suffix [Sha256Update testData 3,
              Printf ''SHA256 Update failed: %d\<newline>'' [wc_Sha256Update p]]
        (trace (test_fips_main p))" by (rule r)
  show "calls (trace (test_fips_main p)) =
        [SetSeed_Cb wc_GenerateSeed, RunAllCast_fips, InitSha256, Sha256Update testData 3]"
    by (rule r)
  show "hash (test_fips_main p) = None" by (rule r)
  show "test_fips_main (p\<lparr>Sha256Final_hash := h\<rparr>) = test_fips_main p" by (rule r)
next
  assume a: "Sha256Final \<in> set (trace (test_fips_main p)) \<and> wc_Sha256Final p \<noteq> 0"
  note r = test_fips_final_failure [OF conjunct1 [OF a] conjunct2 [OF a]]
  show "exit_code (test_fips_main p) = 1" by (rule r)
  show "suffix [Sha256Final, Printf ''SHA256 Final failed: %d\<newline>'' [wc_Sha256Final p]]
        (trace (test_fips_main p))" by (rule r)
  show "calls (trace (test_fips_main p)) =
        [SetSeed_Cb wc_GenerateSeed, RunAllCast_fips, InitSha256, Sha256Update testData 3,
         Sha256Final]" by (rule r)
  show "trace (test_fips_main (p\<lparr>Sha256Final_hash := h\<rparr>)) = trace (test_fips_main p)"
    by (rule r)
qed

theorem digest_call_failure_stops_witness:
  "InitSha256 \<in> set (trace (fips_startup_check_main (nominal\<lparr>wc_InitSha256 := -173\<rparr>))) \<and>
   wc_InitSha256 (nominal\<lparr>wc_InitSha256 := -173\<rparr>) \<noteq> 0 \<and>
   exit_code (fips_startup_check_main (nominal\<lparr>wc_InitSha256 := -173\<rparr>)) = 1 \<and>
   InitSha256 \<in> set (trace (test_fips_main (nominal\<lparr>wc_InitSha256 := -173\<rparr>))) \<and>
   exit_code (test_fips_main (nominal\<lparr>wc_InitSha256 := -173\<rparr>)) = 1 \<and>
   Sha256Update testData 3 \<in>
     set (trace (fips_startup_check_main (nominal\<lparr>wc_Sha256Update := -173\<rparr>))) \<and>
   wc_Sha256Update (nominal\<lparr>wc_Sha256Update := -173\<rparr>) \<noteq> 0 \<and>
   exit_code (fips_startup_check_main (nominal\<lparr>wc_Sha256Update := -173\<rparr>)) = 1 \<and>
   Sha256Update testData 3 \<in> set (trace (test_fips_main (nominal\<lparr>wc_Sha256Update := -173\<rparr>))) \<and>
   exit_code (test_fips_main (nominal\<lparr>wc_Sha256Update := -173\<rparr>)) = 1 \<and>
   Sha256Final \<in> set (trace (fips_startup_check_main (nominal\<lparr>wc_Sha256Final := -173\<rparr>))) \<and>
   wc_Sha256Final (nominal\<lparr>wc_Sha256Final := -173\<rparr>) \<noteq> 0 \<and>
   exit_code (fips_startup_check_main (nominal\<lparr>wc_Sha256Final := -173\<rparr>)) = 1 \<and>
   Sha256Final \<in> set (trace (test_fips_main (nominal\<lparr>wc_Sha256Final := -173\<rparr>))) \<and>
   exit_code (test_fips_main (nominal\<lparr>wc_Sha256Final := -173\<rparr>)) = 1"
proof -
  let ?i = "nominal\<lparr>wc_InitSha256 := -173\<rparr>"
  let ?u = "nominal\<lparr>wc_Sha256Update := -173\<rparr>"
  let ?f = "nominal\<lparr>wc_Sha256Final := -173\<rparr>"
  have i: "InitSha256 \<in> set (trace (fips_startup_check_main ?i))" "wc_InitSha256 ?i \<noteq> 0"
    "InitSha256 \<in> set (trace (test_fips_main ?i))"
    by (simp_all add: startup_reaches test_fips_reaches check1_passes_def nominal_def)
  have u: "Sha256Update testData 3 \<in> set (trace (fips_startup_check_main ?u))"
    "wc_Sha256Update ?u \<noteq> 0" "Sha256Update testData 3 \<in> set (trace (test_fips_main ?u))"
    by (simp_all add: startup_reaches test_fips_reaches check1_passes_def nominal_def)
  have f: "Sha256Final \<in> set (trace (fips_startup_check_main ?f))" "wc_Sha256Final ?f \<noteq> 0"
    "Sha256Final \<in> set (trace (test_fips_main ?f))"
    by (simp_all add: startup_reaches test_fips_reaches check1_passes_def nominal_def)
  from digest_call_failure_stops [of ?i "[]"] i
  have ei: "exit_code (fips_startup_check_main ?i) = 1 \<and> exit_code (test_fips_main ?i) = 1"
    by simp
  from digest_call_failure_stops [of ?u "[]"] u
  have eu: "exit_code (fips_startup_check_main ?u) = 1 \<and> exit_code (test_fips_main ?u) = 1"
    by simp
  from digest_call_failure_stops [of ?f "[]"] f
  have ef: "exit_code (fips_startup_check_main ?f) = 1 \<and> exit_code (test_fips_main ?f) = 1"
    by simp
  from i u f ei eu ef show ?thesis by simp
qed

text \<open>
  C7. The constant \<open>expected\<close> has 32 bytes, written in hexadecimal they are
  ba7816bf8f01cfea414140de5dae2223b00361a396177a9cb410ff61f20015ad, and they are the SHA-256
  digest of the three bytes "abc". Whenever one of the programs calls \<^verbatim>\<open>wc_Sha256Update\<close>,
  the length passed is 3 and the bytes it covers are "abc".
\<close>

theorem expected_digest_and_input:
  "length expected = 32 \<and>
   hex_of expected = ''ba7816bf8f01cfea414140de5dae2223b00361a396177a9cb410ff61f20015ad'' \<and>
   sha256 (map of_char ''abc'') = expected \<and>
   (Sha256Update d n \<in> set (trace (fips_startup_check_main p)) \<or>
    Sha256Update d n \<in> set (trace (test_fips_main p)) \<longrightarrow>
      n = 3 \<and> take (unat n) d = map of_char ''abc'')"
proof (intro conjI impI)
  show "length expected = 32"
    by (simp add: expected_def)
  show "hex_of expected = ''ba7816bf8f01cfea414140de5dae2223b00361a396177a9cb410ff61f20015ad''"
    by (rule hex_of_expected)
  show "sha256 (map of_char ''abc'') = expected"
    by (rule sha256_abc)
next
  assume "Sha256Update d n \<in> set (trace (fips_startup_check_main p)) \<or>
          Sha256Update d n \<in> set (trace (test_fips_main p))"
  then have dn: "d = testData \<and> n = 3"
    by (auto simp: startup_reaches test_fips_reaches)
  then show "n = 3" by simp
  from dn show "take (unat n) d = map of_char ''abc''"
    using testData_bytes by simp
qed

theorem expected_digest_and_input_witness:
  "Sha256Update testData 3 \<in> set (trace (fips_startup_check_main nominal)) \<and>
   take (unat (3 :: c_int)) testData = map of_char ''abc'' \<and>
   sha256 (map of_char ''abc'') = expected"
proof -
  have r: "Sha256Update testData 3 \<in> set (trace (fips_startup_check_main nominal))"
    by (simp add: startup_reaches check1_passes_def nominal_def)
  with expected_digest_and_input [of testData 3 nominal] show ?thesis by blast
qed

text \<open>
  C8. Take two runs of a program built with the same flags. If the library gives, to every
  call that the first run makes, the same status and the same digest bytes in the second run,
  then the two runs are identical: the same output and calls in the same order, the same exit
  status and the same content of the digest buffer.
\<close>

theorem runs_deterministic:
  assumes "HAVE_FIPS q = HAVE_FIPS p" and "HAVE_FIPS_VERSION q = HAVE_FIPS_VERSION p"
  shows "((\<forall>e \<in> set (trace (fips_startup_check_main p)). answer q e = answer p e) \<longrightarrow>
            fips_startup_check_main q = fips_startup_check_main p) \<and>
         ((\<forall>e \<in> set (trace (test_fips_main p)). answer q e = answer p e) \<longrightarrow>
            test_fips_main q = test_fips_main p)"
proof (intro conjI impI)
  assume "\<forall>e \<in> set (trace (fips_startup_check_main p)). answer q e = answer p e"
  with assms show "fips_startup_check_main q = fips_startup_check_main p"
    by (rule startup_agree)
next
  assume "\<forall>e \<in> set (trace (test_fips_main p)). answer q e = answer p e"
  with assms show "test_fips_main q = test_fips_main p"
    by (rule test_fips_agree)
qed

theorem runs_deterministic_witness:
  "HAVE_FIPS (wrong_digest\<lparr>wc_InitSha256 := -173\<rparr>) = HAVE_FIPS (nominal\<lparr>wc_InitSha256 := -173\<rparr>) \<and>
   HAVE_FIPS_VERSION (wrong_digest\<lparr>wc_InitSha256 := -173\<rparr>) =
     HAVE_FIPS_VERSION (nominal\<lparr>wc_InitSha256 := -173\<rparr>) \<and>
   Sha256Final_hash (wrong_digest\<lparr>wc_InitSha256 := -173\<rparr>) \<noteq>
     Sha256Final_hash (nominal\<lparr>wc_InitSha256 := -173\<rparr>) \<and>
   fips_startup_check_main (wrong_digest\<lparr>wc_InitSha256 := -173\<rparr>) =
     fips_startup_check_main (nominal\<lparr>wc_InitSha256 := -173\<rparr>) \<and>
   test_fips_main (wrong_digest\<lparr>wc_InitSha256 := -173\<rparr>) =
     test_fips_main (nominal\<lparr>wc_InitSha256 := -173\<rparr>)"
proof -
  let ?p = "nominal\<lparr>wc_InitSha256 := -173\<rparr>"
  let ?q = "wrong_digest\<lparr>wc_InitSha256 := -173\<rparr>"
  have f: "HAVE_FIPS ?q = HAVE_FIPS ?p" and v: "HAVE_FIPS_VERSION ?q = HAVE_FIPS_VERSION ?p"
    by (simp_all add: wrong_digest_def)
  have c: "library_calls ?p = [SetSeed_Cb wc_GenerateSeed, RunAllCast_fips, InitSha256]"
    by (simp add: library_calls_def nominal_def)
  have cp: "check1_passes ?p"
    by (simp add: check1_passes_def nominal_def)
  have k1: "calls (trace (fips_startup_check_main ?p)) =
              [SetSeed_Cb wc_GenerateSeed, RunAllCast_fips, InitSha256]"
    using cp c by (simp only: startup_calls if_True)
  have k2: "calls (trace (test_fips_main ?p)) =
              [SetSeed_Cb wc_GenerateSeed, RunAllCast_fips, InitSha256]"
    using c by (simp only: test_fips_calls)
  have a1: "\<forall>e \<in> set (trace (fips_startup_check_main ?p)). answer ?q e = answer ?p e"
  proof (subst answer_on_calls)
    show "\<forall>e \<in> set (calls (trace (fips_startup_check_main ?p))). answer ?q e = answer ?p e"
      unfolding k1 by (simp add: wrong_digest_def nominal_def)
  qed
  have a2: "\<forall>e \<in> set (trace (test_fips_main ?p)). answer ?q e = answer ?p e"
  proof (subst answer_on_calls)
    show "\<forall>e \<in> set (calls (trace (test_fips_main ?p))). answer ?q e = answer ?p e"
      unfolding k2 by (simp add: wrong_digest_def nominal_def)
  qed
  have "expected[31 := 0xae] \<noteq> expected"
    by code_simp
  then have d: "Sha256Final_hash ?q \<noteq> Sha256Final_hash ?p"
    by (simp add: wrong_digest_def nominal_def)
  from runs_deterministic [OF f v] a1 a2 f v d show ?thesis by blast
qed

text \<open>
  C9. Wherever the CAST self-test occurs in a run of either program, the registration of the
  seed callback \<^verbatim>\<open>wc_GenerateSeed\<close> occurs before it.
\<close>

theorem seed_registered_before_cast:
  assumes "trace (fips_startup_check_main p) = pre @ RunAllCast_fips # post \<or>
           trace (test_fips_main p) = pre @ RunAllCast_fips # post"
  shows "SetSeed_Cb wc_GenerateSeed \<in> set pre"
  using assms
proof
  assume t: "trace (fips_startup_check_main p) = pre @ RunAllCast_fips # post"
  have "calls (trace (fips_startup_check_main p)) = [] \<or>
        (\<exists>rest. calls (trace (fips_startup_check_main p)) = SetSeed_Cb wc_GenerateSeed # rest)"
    by (simp add: startup_calls library_calls_def)
  with t show ?thesis by (rule seed_before_cast)
next
  assume t: "trace (test_fips_main p) = pre @ RunAllCast_fips # post"
  have "calls (trace (test_fips_main p)) = [] \<or>
        (\<exists>rest. calls (trace (test_fips_main p)) = SetSeed_Cb wc_GenerateSeed # rest)"
    by (simp add: test_fips_calls library_calls_def)
  with t show ?thesis by (rule seed_before_cast)
qed

theorem seed_registered_before_cast_witness:
  "trace (fips_startup_check_main (nominal\<lparr>wc_RunAllCast_fips := 1\<rparr>)) =
     (banner @
      [Printf ''[1/3] Checking FIPS compile-time configuration...\<newline>'' [],
       Printf (''      '' @ check_mark @ '' FIPS mode: ENABLED\<newline>'') [],
       Printf (''      '' @ check_mark @ '' FIPS version: %d\<newline>'') [5],
       Printf ''\<newline>[2/3] Running FIPS Known Answer Tests (CAST)...\<newline>'' [],
       SetSeed_Cb wc_GenerateSeed]) @
     RunAllCast_fips #
     [Printf (''      '' @ cross_mark @ '' FIPS CAST FAILED (error code: %d)\<newline>'') [1],
      Printf ''      FIPS cryptographic module validation failed\<newline>'' []] \<and>
   SetSeed_Cb wc_GenerateSeed \<in> set (banner @
      [Printf ''[1/3] Checking FIPS compile-time configuration...\<newline>'' [],
       Printf (''      '' @ check_mark @ '' FIPS mode: ENABLED\<newline>'') [],
       Printf (''      '' @ check_mark @ '' FIPS version: %d\<newline>'') [5],
       Printf ''\<newline>[2/3] Running FIPS Known Answer Tests (CAST)...\<newline>'' [],
       SetSeed_Cb wc_GenerateSeed])"
proof -
  have c: "check1_passes (nominal\<lparr>wc_RunAllCast_fips := 1\<rparr>)"
    by (simp add: check1_passes_def nominal_def)
  have t: "trace (fips_startup_check_main (nominal\<lparr>wc_RunAllCast_fips := 1\<rparr>)) =
     (banner @
      [Printf ''[1/3] Checking FIPS compile-time configuration...\<newline>'' [],
       Printf (''      '' @ check_mark @ '' FIPS mode: ENABLED\<newline>'') [],
       Printf (''      '' @ check_mark @ '' FIPS version: %d\<newline>'') [5],
       Printf ''\<newline>[2/3] Running FIPS Known Answer Tests (CAST)...\<newline>'' [],
       SetSeed_Cb wc_GenerateSeed]) @
     RunAllCast_fips #
     [Printf (''      '' @ cross_mark @ '' FIPS CAST FAILED (error code: %d)\<newline>'') [1],
      Printf ''      FIPS cryptographic module validation failed\<newline>'' []]"
    by (simp add: startup_main_pass [OF c] startup_check2_fail)
       (simp add: startup_check1_def nominal_def)
  from seed_registered_before_cast [OF disjI1 [OF t]] t show ?thesis by blast
qed

text \<open>
  C10. Both programs are total functions of the library's answers: the two loops are defined
  with a counter that runs up to 32, the comparison loop is left with a counter of at most 32
  (below 32 when it breaks), the printing loop is left with the counter 32 after exactly 32
  calls of \<^verbatim>\<open>printf\<close>, and the value returned by \<^verbatim>\<open>main\<close> is 0 or 1.
\<close>

theorem terminates_with_0_or_1:
  "(exit_code (fips_startup_check_main p) = 0 \<or> exit_code (fips_startup_check_main p) = 1) \<and>
   (exit_code (test_fips_main p) = 0 \<or> exit_code (test_fips_main p) = 1) \<and>
   snd (match_loop h ex 1 0) \<le> 32 \<and>
   (fst (match_loop h ex 1 0) = 0 \<longrightarrow> snd (match_loop h ex 1 0) < 32) \<and>
   snd (print_loop h 0 out) = 32 \<and>
   length (fst (print_loop h 0 out)) = length out + 32"
proof (intro conjI)
  show "exit_code (fips_startup_check_main p) = 0 \<or> exit_code (fips_startup_check_main p) = 1"
    by (simp add: startup_exit_code_gen)
  show "exit_code (test_fips_main p) = 0 \<or> exit_code (test_fips_main p) = 1"
    by (simp add: test_fips_exit_code)
  show "snd (match_loop h ex 1 0) \<le> 32"
    using match_loop_snd [of h ex 1 0] by (simp add: WC_SHA256_DIGEST_SIZE_def)
  show "fst (match_loop h ex 1 0) = 0 \<longrightarrow> snd (match_loop h ex 1 0) < 32"
    using match_loop_break [of h ex 1 0] by (simp add: WC_SHA256_DIGEST_SIZE_def)
  show "snd (print_loop h 0 out) = 32"
    by (simp add: print_loop_eq WC_SHA256_DIGEST_SIZE_def)
  show "length (fst (print_loop h 0 out)) = length out + 32"
    by (simp add: print_loop_eq WC_SHA256_DIGEST_SIZE_def)
qed

theorem terminates_with_0_or_1_witness:
  "fst (match_loop (expected[31 := 0xae]) expected 1 0) = 0 \<and>
   snd (match_loop (expected[31 := 0xae]) expected 1 0) < 32"
proof -
  have "expected[31 := 0xae] \<noteq> expected"
    by code_simp
  then have z: "fst (match_loop (expected[31 := 0xae]) expected 1 0) = 0"
    by (simp add: match_loop_expected length_expected)
  with terminates_with_0_or_1 [of nominal "expected[31 := 0xae]" expected "[]"]
  show ?thesis by blast
qed

end
